theory Spec2Isabelle
  imports Complex_Main
begin

section \<open>The WebGPU render-target system (GpuRenderTargetSystem.ts)\<close>

text \<open>
  A shallow embedding of \<^verbatim>\<open>src/rendering/renderers/gpu/renderTarget/GpuRenderTargetSystem.ts\<close>.
  JavaScript objects live in explicit stores: a reference is a key of a store, and reading a
  property through a reference that holds no object is reading a property of
  \<^verbatim>\<open>undefined\<close> or \<^verbatim>\<open>null\<close>, which raises a \<^verbatim>\<open>TypeError\<close>.
  Every method takes the state and returns either the error or its result with the new state;
  an error ends the run (the state that an exception leaves behind is not modelled).
  Numbers that the system only compares or hands on are integers (dimensions, sample
  counts) or reals (resolution, color components).
\<close>

datatype error = TypeError

subsection \<open>Data\<close>

text \<open>\<^verbatim>\<open>RGBAArray = [number, number, number, number]\<close> and \<^verbatim>\<open>DEFAULT_CLEAR_COLOR\<close>.\<close>

type_synonym RGBAArray = "real \<times> real \<times> real \<times> real"

definition DEFAULT_CLEAR_COLOR :: RGBAArray where
  "DEFAULT_CLEAR_COLOR = (0, 0, 0, 0)"

datatype Matrix = Matrix real real real real real real

definition new_Matrix :: Matrix where
  "new_Matrix = Matrix 1 0 0 1 0 0"

text \<open>
  What a texture source wraps. Only an \<^verbatim>\<open>HTMLCanvasElement\<close> passes the
  \<^verbatim>\<open>instanceof HTMLCanvasElement\<close> test; an \<^verbatim>\<open>OffscreenCanvas\<close> fails it but
  still has a \<^verbatim>\<open>getContext\<close> method; \<open>NoCanvas\<close> stands for every resource without
  that method (an image, a video, a buffer, nothing at all).
\<close>

datatype Resource = HTMLCanvasElement nat | OffscreenCanvas nat | NoCanvas

text \<open>
  The fields of \<^verbatim>\<open>TextureSource\<close>, \<^verbatim>\<open>Texture\<close> and \<^verbatim>\<open>RenderTarget\<close> that the
  system reads or writes. Textures and sources are referred to by their store keys.
\<close>

record TextureSource =
  resource :: Resource
  antialias :: bool
  ts_width :: int
  ts_height :: int
  resolution :: real
  sampleCount :: nat
  depthStencil :: "nat option"

record Texture =
  source :: nat

record RenderTarget =
  colorTextures :: "nat list"
  depthTexture :: "nat option"
  rt_width :: int
  rt_height :: int
  isRoot :: bool
  projectionMatrix :: Matrix

text \<open>
  \<^verbatim>\<open>RenderSurface = ICanvas | BindableTexture | RenderTarget\<close>. The argument is the
  identity of the object: a canvas, a \<^verbatim>\<open>Texture\<close> instance (a key of the texture store),
  a bindable texture that is not a \<^verbatim>\<open>Texture\<close> instance, or a \<^verbatim>\<open>RenderTarget\<close>
  (its uid).
\<close>

datatype RenderSurface =
  CanvasSurface nat
  | TextureSurface nat
  | BindableSurface nat
  | RenderTargetSurface nat

datatype GPULoadOp = Load | Clear

datatype GPUStoreOp = Store | Discard

text \<open>
  Texture views are made by collaborators (the canvas context, the texture system); the
  model names a view by what it is a view of.
\<close>

datatype GPUTextureView =
  CanvasTextureView nat
  | TextureView nat
  | MsaaTextureView nat nat
  | SourceView nat

record GPURenderPassColorAttachment =
  view :: GPUTextureView
  resolveTarget :: "GPUTextureView option"
  clearValue :: RGBAArray
  storeOp :: GPUStoreOp
  loadOp :: GPULoadOp

record GPURenderPassDepthStencilAttachment =
  ds_view :: GPUTextureView
  stencilStoreOp :: GPUStoreOp
  stencilLoadOp :: GPULoadOp

record GPURenderPassDescriptor =
  colorAttachments :: "GPURenderPassColorAttachment list"
  depthStencilAttachment :: "GPURenderPassDepthStencilAttachment option"

text \<open>
  \<^verbatim>\<open>GpuRenderTarget\<close>: \<open>contexts\<close> and \<open>msaaTextures\<close> are JavaScript arrays written by
  index, so they are maps from the index (a hole, \<^verbatim>\<open>undefined\<close> and \<^verbatim>\<open>null\<close> all
  read as \<open>None\<close>, as every reader of them only tests truthiness). The multisample
  textures are owned by the backend target alone and are held by value. \<open>gpu_width\<close> and
  \<open>gpu_height\<close> are \<^verbatim>\<open>undefined\<close> until the first resize.
\<close>

record GpuRenderTarget =
  contexts :: "nat \<rightharpoonup> nat"
  msaaTextures :: "nat \<rightharpoonup> TextureSource"
  msaa :: bool
  msaaSamples :: nat
  gpu_width :: "int option"
  gpu_height :: "int option"
  descriptor :: "GPURenderPassDescriptor option"

text \<open>
  Modelled from the spec: the class \<^verbatim>\<open>GpuRenderTarget\<close> is not under src/. A new backend
  target has no contexts and no multisample textures, and its sample count is 1 (spec:
  sample count is 4 when MSAA is enabled, 1 otherwise); the fields its constructor leaves
  \<^verbatim>\<open>undefined\<close> read as \<open>False\<close> and \<open>None\<close>.
\<close>

definition new_GpuRenderTarget :: GpuRenderTarget where
  "new_GpuRenderTarget =
     \<lparr>contexts = Map.empty, msaaTextures = Map.empty, msaa = False, msaaSamples = 1,
      gpu_width = None, gpu_height = None, descriptor = None\<rparr>"

text \<open>What the system asks of its collaborators, in the order it asks.\<close>

datatype Event =
  EncoderStart
  | ContextConfigure nat
  | ConsoleError
  | BeginRenderPass nat GpuRenderTarget
  | SetMultisampleCount nat
  | OnRenderTargetChange nat

text \<open>
  The state: the fields of the class, the stores of the objects it reaches
  (\<open>heap_renderTargets\<close> is keyed by \<^verbatim>\<open>uid\<close>, which the \<^verbatim>\<open>RenderTarget\<close> constructor
  draws from a global counter, so that a uid identifies the object), the browser
  (\<open>env_getContext\<close> is \<^verbatim>\<open>getContext('webgpu')\<close>, \<open>None\<close> for \<^verbatim>\<open>null\<close>;
  \<open>env_configure_throws\<close> says whether \<^verbatim>\<open>configure\<close> throws on a context), and the log of
  the calls made to collaborators.
\<close>

record GpuRenderTargetSystem =
  rootRenderTarget :: "nat option"
  rootProjectionMatrix :: Matrix
  renderTarget :: "nat option"
  renderSurfaceToRenderTargetHash :: "RenderSurface \<rightharpoonup> nat"
  gpuRenderTargetHash :: "nat \<rightharpoonup> GpuRenderTarget"
  renderTargetStack :: "nat list"
  gpu :: "nat option"
  heap_renderTargets :: "nat \<rightharpoonup> RenderTarget"
  heap_textures :: "nat \<rightharpoonup> Texture"
  heap_sources :: "nat \<rightharpoonup> TextureSource"
  next_uid :: nat
  env_getContext :: "Resource \<Rightarrow> nat option"
  env_configure_throws :: "nat \<Rightarrow> bool"
  env_projection :: "int \<Rightarrow> int \<Rightarrow> Matrix"
  events :: "Event list"

text \<open>\<^verbatim>\<open>texture.source\<close> followed to the source object.\<close>

definition texture_source :: "GpuRenderTargetSystem \<Rightarrow> nat \<Rightarrow> TextureSource option" where
  "texture_source st t =
     (case heap_textures st t of
        None \<Rightarrow> None
      | Some tx \<Rightarrow> heap_sources st (source tx))"

text \<open>
  Modelled from the spec: the class \<^verbatim>\<open>TextureSource\<close> is not under src/.
  \<^verbatim>\<open>new TextureSource({width: 0, height: 0, sampleCount: 4})\<close> is a source of these
  dimensions and this sample count that wraps no resource.
\<close>

definition new_TextureSource :: "int \<Rightarrow> int \<Rightarrow> nat \<Rightarrow> TextureSource" where
  "new_TextureSource w h sc =
     \<lparr>resource = NoCanvas, antialias = False, ts_width = w, ts_height = h, resolution = 1,
      sampleCount = sc, depthStencil = None\<rparr>"

text \<open>
  Modelled from the spec: the method \<^verbatim>\<open>resize\<close> of \<^verbatim>\<open>TextureSource\<close> is not under
  src/. It sets width, height and resolution (spec: resizes each multisample buffer to match
  its corresponding color attachment's width, height, and resolution).
\<close>

definition resize :: "TextureSource \<Rightarrow> int \<Rightarrow> int \<Rightarrow> real \<Rightarrow> TextureSource" where
  "resize s w h r = s\<lparr>ts_width := w, ts_height := h, resolution := r\<rparr>"

text \<open>
  Modelled from the spec: the class \<^verbatim>\<open>RenderTarget\<close> is not under src/.
  \<^verbatim>\<open>new RenderTarget({colorTextures, depthTexture})\<close> makes an entity with a unique
  identifier, the given color attachments and depth/stencil attachment, the dimensions of
  its first color attachment, and a projection matrix derived from its dimensions; it is
  not yet marked root. The derivation of the matrix is the collaborator's
  (\<open>env_projection\<close>).
\<close>

definition new_RenderTarget ::
  "GpuRenderTargetSystem \<Rightarrow> nat list \<Rightarrow> nat option \<Rightarrow> error + (nat \<times> GpuRenderTargetSystem)" where
  "new_RenderTarget st cts d =
     (case cts of
        [] \<Rightarrow> Inl TypeError
      | t # _ \<Rightarrow>
          (case texture_source st t of
             None \<Rightarrow> Inl TypeError
           | Some s \<Rightarrow>
               let u = next_uid st;
                   rt = \<lparr>colorTextures = cts, depthTexture = d,
                         rt_width = ts_width s, rt_height = ts_height s, isRoot = False,
                         projectionMatrix = env_projection st (ts_width s) (ts_height s)\<rparr>
               in Inr (u, st\<lparr>heap_renderTargets := (heap_renderTargets st)(u \<mapsto> rt),
                              next_uid := Suc u\<rparr>)))"

subsection \<open>Surface to render target\<close>

text \<open>
  \<^verbatim>\<open>initRenderTarget\<close>: \<^verbatim>\<open>renderTarget\<close> starts as \<^verbatim>\<open>null\<close> and is assigned only for a
  \<^verbatim>\<open>RenderTarget\<close> or a \<^verbatim>\<open>Texture\<close> instance; \<^verbatim>\<open>renderTarget.isRoot = true\<close> then
  raises on \<^verbatim>\<open>null\<close>.
\<close>

definition initRenderTarget ::
  "GpuRenderTargetSystem \<Rightarrow> RenderSurface \<Rightarrow> error + (nat \<times> GpuRenderTargetSystem)" where
  "initRenderTarget st renderSurface =
     (case (case renderSurface of
              RenderTargetSurface u \<Rightarrow> Inr (Some u, st)
            | TextureSurface t \<Rightarrow>
                (case texture_source st t of
                   None \<Rightarrow> Inl TypeError
                 | Some s \<Rightarrow>
                     (case new_RenderTarget st [t] (depthStencil s) of
                        Inl e \<Rightarrow> Inl e
                      | Inr (u, st1) \<Rightarrow> Inr (Some u, st1)))
            | _ \<Rightarrow> Inr (None, st)) of
        Inl e \<Rightarrow> Inl e
      | Inr (None, st1) \<Rightarrow> Inl TypeError
      | Inr (Some u, st1) \<Rightarrow>
          (case heap_renderTargets st1 u of
             None \<Rightarrow> Inl TypeError
           | Some rt \<Rightarrow>
               Inr (u, st1\<lparr>heap_renderTargets := (heap_renderTargets st1)(u \<mapsto> rt\<lparr>isRoot := True\<rparr>),
                           renderSurfaceToRenderTargetHash :=
                             (renderSurfaceToRenderTargetHash st1)(renderSurface \<mapsto> u)\<rparr>)))"

definition getRenderTarget ::
  "GpuRenderTargetSystem \<Rightarrow> RenderSurface \<Rightarrow> error + (nat \<times> GpuRenderTargetSystem)" where
  "getRenderTarget st renderSurface =
     (case renderSurfaceToRenderTargetHash st renderSurface of
        Some u \<Rightarrow> Inr (u, st)
      | None \<Rightarrow> initRenderTarget st renderSurface)"

subsection \<open>Render target to backend render target\<close>

text \<open>
  The context of an attachment backed by an \<^verbatim>\<open>HTMLCanvasElement\<close> is taken from
  \<^verbatim>\<open>renderTarget.colorTexture\<close>, the first color texture, whatever the index of the
  attachment. \<^verbatim>\<open>context.configure({device: this.gpu.device, ...})\<close> sits in a
  \<^verbatim>\<open>try\<close>: a \<^verbatim>\<open>null\<close> context, a missing \<^verbatim>\<open>gpu\<close> and a throwing
  \<^verbatim>\<open>configure\<close> all end in \<^verbatim>\<open>console.error\<close>.
\<close>

definition acquireContext ::
  "GpuRenderTargetSystem \<Rightarrow> RenderTarget \<Rightarrow> error + (nat option \<times> GpuRenderTargetSystem)" where
  "acquireContext st rt =
     (case colorTextures rt of
        [] \<Rightarrow> Inl TypeError
      | t0 # _ \<Rightarrow>
          (case texture_source st t0 of
             None \<Rightarrow> Inl TypeError
           | Some s0 \<Rightarrow>
               if resource s0 = NoCanvas then Inl TypeError
               else
                 (case env_getContext st (resource s0) of
                    None \<Rightarrow> Inr (None, st\<lparr>events := events st @ [ConsoleError]\<rparr>)
                  | Some c \<Rightarrow>
                      if gpu st = None then Inr (Some c, st\<lparr>events := events st @ [ConsoleError]\<rparr>)
                      else if env_configure_throws st c
                      then Inr (Some c, st\<lparr>events := events st @ [ContextConfigure c, ConsoleError]\<rparr>)
                      else Inr (Some c, st\<lparr>events := events st @ [ContextConfigure c]\<rparr>))))"

text \<open>The body of the \<^verbatim>\<open>forEach\<close> of \<^verbatim>\<open>initGpuRenderTarget\<close> for attachment \<open>i\<close>.\<close>

definition initColorTexture ::
  "RenderTarget \<Rightarrow> nat \<Rightarrow> nat \<Rightarrow> GpuRenderTarget \<times> GpuRenderTargetSystem \<Rightarrow>
     error + (GpuRenderTarget \<times> GpuRenderTargetSystem)" where
  "initColorTexture rt i colorTexture gst =
     (case gst of (g, st) \<Rightarrow>
        (case texture_source st colorTexture of
           None \<Rightarrow> Inl TypeError
         | Some s \<Rightarrow>
             (case (case resource s of
                      HTMLCanvasElement _ \<Rightarrow>
                        (case acquireContext st rt of
                           Inl e \<Rightarrow> Inl e
                         | Inr (context, st1) \<Rightarrow> Inr (g\<lparr>contexts := (contexts g)(i := context)\<rparr>, st1))
                    | _ \<Rightarrow> Inr (g, st)) of
                Inl e \<Rightarrow> Inl e
              | Inr (g1, st1) \<Rightarrow>
                  let g2 = g1\<lparr>msaa := antialias s\<rparr>
                  in if antialias s
                     then Inr (g2\<lparr>msaaTextures := (msaaTextures g2)(i \<mapsto> new_TextureSource 0 0 4)\<rparr>, st1)
                     else Inr (g2, st1))))"

fun initColorTextures ::
  "RenderTarget \<Rightarrow> nat \<Rightarrow> nat list \<Rightarrow> GpuRenderTarget \<times> GpuRenderTargetSystem \<Rightarrow>
     error + (GpuRenderTarget \<times> GpuRenderTargetSystem)" where
  "initColorTextures rt i [] gst = Inr gst"
| "initColorTextures rt i (colorTexture # rest) gst =
     (case initColorTexture rt i colorTexture gst of
        Inl e \<Rightarrow> Inl e
      | Inr gst1 \<Rightarrow> initColorTextures rt (Suc i) rest gst1)"

text \<open>\<^verbatim>\<open>renderTarget.depthTexture.source.sampleCount = 4\<close>.\<close>

definition setDepthSampleCount ::
  "GpuRenderTargetSystem \<Rightarrow> nat \<Rightarrow> nat \<Rightarrow> error + GpuRenderTargetSystem" where
  "setDepthSampleCount st d n =
     (case heap_textures st d of
        None \<Rightarrow> Inl TypeError
      | Some tx \<Rightarrow>
          (case heap_sources st (source tx) of
             None \<Rightarrow> Inl TypeError
           | Some s \<Rightarrow>
               Inr (st\<lparr>heap_sources := (heap_sources st)(source tx \<mapsto> s\<lparr>sampleCount := n\<rparr>)\<rparr>)))"

definition initGpuRenderTarget ::
  "GpuRenderTargetSystem \<Rightarrow> nat \<Rightarrow> error + (GpuRenderTarget \<times> GpuRenderTargetSystem)" where
  "initGpuRenderTarget st u =
     (case heap_renderTargets st u of
        None \<Rightarrow> Inl TypeError
      | Some rt0 \<Rightarrow>
          let rt = rt0\<lparr>isRoot := True\<rparr>;
              st1 = st\<lparr>heap_renderTargets := (heap_renderTargets st)(u \<mapsto> rt)\<rparr>
          in (case initColorTextures rt 0 (colorTextures rt) (new_GpuRenderTarget, st1) of
                Inl e \<Rightarrow> Inl e
              | Inr (g, st2) \<Rightarrow>
                  (case (if msaa g
                         then (case depthTexture rt of
                                 None \<Rightarrow> Inr (g\<lparr>msaaSamples := 4\<rparr>, st2)
                               | Some d \<Rightarrow>
                                   (case setDepthSampleCount st2 d 4 of
                                      Inl e \<Rightarrow> Inl e
                                    | Inr st3 \<Rightarrow> Inr (g\<lparr>msaaSamples := 4\<rparr>, st3)))
                         else Inr (g, st2)) of
                     Inl e \<Rightarrow> Inl e
                   | Inr (g1, st3) \<Rightarrow>
                       Inr (g1, st3\<lparr>gpuRenderTargetHash := (gpuRenderTargetHash st3)(u \<mapsto> g1)\<rparr>))))"

definition getGpuRenderTarget ::
  "GpuRenderTargetSystem \<Rightarrow> nat \<Rightarrow> error + (GpuRenderTarget \<times> GpuRenderTargetSystem)" where
  "getGpuRenderTarget st u =
     (case gpuRenderTargetHash st u of
        Some g \<Rightarrow> Inr (g, st)
      | None \<Rightarrow> initGpuRenderTarget st u)"

subsection \<open>Resizing\<close>

text \<open>
  The \<^verbatim>\<open>forEach\<close> of \<^verbatim>\<open>resizeGpuRenderTarget\<close>. The arguments of the optional
  call \<^verbatim>\<open>msaaTexture?.resize(...)\<close> are not evaluated when the receiver is missing, so
  \<^verbatim>\<open>colorTexture.source\<close> is read only where a multisample texture exists.
\<close>

fun resizeMsaaTextures ::
  "GpuRenderTargetSystem \<Rightarrow> nat \<Rightarrow> nat list \<Rightarrow> GpuRenderTarget \<Rightarrow> error + GpuRenderTarget" where
  "resizeMsaaTextures st i [] g = Inr g"
| "resizeMsaaTextures st i (colorTexture # rest) g =
     (case msaaTextures g i of
        None \<Rightarrow> resizeMsaaTextures st (Suc i) rest g
      | Some msaaTexture \<Rightarrow>
          (case texture_source st colorTexture of
             None \<Rightarrow> Inl TypeError
           | Some s \<Rightarrow>
               resizeMsaaTextures st (Suc i) rest
                 (g\<lparr>msaaTextures := (msaaTextures g)
                      (i \<mapsto> resize msaaTexture (ts_width s) (ts_height s) (resolution s))\<rparr>)))"

definition resizeGpuRenderTarget ::
  "GpuRenderTargetSystem \<Rightarrow> nat \<Rightarrow> error + (GpuRenderTarget \<times> GpuRenderTargetSystem)" where
  "resizeGpuRenderTarget st u =
     (case heap_renderTargets st u of
        None \<Rightarrow> Inl TypeError
      | Some rt \<Rightarrow>
          (case getGpuRenderTarget st u of
             Inl e \<Rightarrow> Inl e
           | Inr (g, st1) \<Rightarrow>
               let g1 = g\<lparr>gpu_width := Some (rt_width rt), gpu_height := Some (rt_height rt)\<rparr>
               in (case (if msaa g1 then resizeMsaaTextures st1 0 (colorTextures rt) g1 else Inr g1) of
                     Inl e \<Rightarrow> Inl e
                   | Inr g2 \<Rightarrow>
                       Inr (g2, st1\<lparr>gpuRenderTargetHash := (gpuRenderTargetHash st1)(u \<mapsto> g2)\<rparr>))))"

subsection \<open>The pass descriptor\<close>

definition colorAttachment ::
  "GpuRenderTarget \<Rightarrow> nat \<Rightarrow> GPULoadOp \<Rightarrow> RGBAArray option \<Rightarrow> nat \<times> nat \<Rightarrow>
     GPURenderPassColorAttachment" where
  "colorAttachment g u lop cv it =
     (case it of (i, texture) \<Rightarrow>
        let view0 = (case contexts g i of
                       Some context \<Rightarrow> CanvasTextureView context
                     | None \<Rightarrow> TextureView texture)
        in \<lparr>view = (case msaaTextures g i of Some _ \<Rightarrow> MsaaTextureView u i | None \<Rightarrow> view0),
            resolveTarget = (case msaaTextures g i of Some _ \<Rightarrow> Some view0 | None \<Rightarrow> None),
            clearValue = (case cv of Some c \<Rightarrow> c | None \<Rightarrow> DEFAULT_CLEAR_COLOR),
            storeOp = Store,
            loadOp = lop\<rparr>)"

definition getDescriptor ::
  "GpuRenderTargetSystem \<Rightarrow> nat \<Rightarrow> bool \<Rightarrow> RGBAArray option \<Rightarrow>
     error + (GPURenderPassDescriptor \<times> GpuRenderTargetSystem)" where
  "getDescriptor st u clr cv =
     (case getGpuRenderTarget st u of
        Inl e \<Rightarrow> Inl e
      | Inr (g, st1) \<Rightarrow>
          (case heap_renderTargets st1 u of
             None \<Rightarrow> Inl TypeError
           | Some rt \<Rightarrow>
               let lop = (if clr then Clear else Load);
                   cas = map (colorAttachment g u lop cv) (enumerate 0 (colorTextures rt))
               in (case depthTexture rt of
                     None \<Rightarrow>
                       Inr (\<lparr>colorAttachments = cas, depthStencilAttachment = None\<rparr>, st1)
                   | Some d \<Rightarrow>
                       (case heap_textures st1 d of
                          None \<Rightarrow> Inl TypeError
                        | Some tx \<Rightarrow>
                            Inr (\<lparr>colorAttachments = cas,
                                  depthStencilAttachment =
                                    Some \<lparr>ds_view = SourceView (source tx), stencilStoreOp = Store,
                                          stencilLoadOp = lop\<rparr>\<rparr>, st1)))))"

subsection \<open>Binding and the stack\<close>

text \<open>
  \<^verbatim>\<open>bind\<close>, \<^verbatim>\<open>push\<close> and \<^verbatim>\<open>start\<close> default \<^verbatim>\<open>clear\<close> to \<^verbatim>\<open>true\<close>; the model takes
  the flag after defaulting. \<^verbatim>\<open>clearColor\<close> may be omitted (\<open>None\<close>).
  \<^verbatim>\<open>gpuRenderTarget\<close> is one object throughout \<^verbatim>\<open>bind\<close>: the entry of the hash for
  the uid, which the resize and the descriptor update.
\<close>

definition bind ::
  "GpuRenderTargetSystem \<Rightarrow> RenderSurface \<Rightarrow> bool \<Rightarrow> RGBAArray option \<Rightarrow>
     error + (nat \<times> GpuRenderTargetSystem)" where
  "bind st renderSurface clr clearColor =
     (case getRenderTarget st renderSurface of
        Inl e \<Rightarrow> Inl e
      | Inr (u, st1) \<Rightarrow>
          (case getGpuRenderTarget (st1\<lparr>renderTarget := Some u\<rparr>) u of
             Inl e \<Rightarrow> Inl e
           | Inr (g, st2) \<Rightarrow>
               (case heap_renderTargets st2 u of
                  None \<Rightarrow> Inl TypeError
                | Some rt \<Rightarrow>
                    (case (if Some (rt_width rt) \<noteq> gpu_width g \<or> Some (rt_height rt) \<noteq> gpu_height g
                           then resizeGpuRenderTarget st2 u
                           else Inr (g, st2)) of
                       Inl e \<Rightarrow> Inl e
                     | Inr (g1, st3) \<Rightarrow>
                         (case getDescriptor st3 u clr clearColor of
                            Inl e \<Rightarrow> Inl e
                          | Inr (d, st4) \<Rightarrow>
                              let g2 = g1\<lparr>descriptor := Some d\<rparr>
                              in Inr (u, st4\<lparr>gpuRenderTargetHash := (gpuRenderTargetHash st4)(u \<mapsto> g2),
                                             events := events st4 @
                                               [BeginRenderPass u g2,
                                                SetMultisampleCount (msaaSamples g2),
                                                OnRenderTargetChange u]\<rparr>))))))"

definition push ::
  "GpuRenderTargetSystem \<Rightarrow> RenderSurface \<Rightarrow> bool \<Rightarrow> RGBAArray option \<Rightarrow>
     error + (nat \<times> GpuRenderTargetSystem)" where
  "push st renderSurface clr clearColor =
     (case bind st renderSurface clr clearColor of
        Inl e \<Rightarrow> Inl e
      | Inr (u, st1) \<Rightarrow> Inr (u, st1\<lparr>renderTargetStack := renderTargetStack st1 @ [u]\<rparr>))"

text \<open>
  \<^verbatim>\<open>pop\<close>: on a stack left empty, \<^verbatim>\<open>renderTargetStack[length - 1]\<close> is
  \<^verbatim>\<open>undefined\<close>, which no hash holds and \<^verbatim>\<open>initRenderTarget\<close> cannot wrap: the bind
  raises.
\<close>

definition pop :: "GpuRenderTargetSystem \<Rightarrow> error + GpuRenderTargetSystem" where
  "pop st =
     (let st1 = st\<lparr>renderTargetStack := butlast (renderTargetStack st)\<rparr>
      in if renderTargetStack st1 = [] then Inl TypeError
         else (case bind st1 (RenderTargetSurface (last (renderTargetStack st1))) False None of
                 Inl e \<Rightarrow> Inl e
               | Inr (u, st2) \<Rightarrow> Inr st2))"

definition start ::
  "GpuRenderTargetSystem \<Rightarrow> RenderSurface \<Rightarrow> bool \<Rightarrow> RGBAArray option \<Rightarrow>
     error + GpuRenderTargetSystem" where
  "start st rootRenderSurface clr clearColor =
     (case getRenderTarget st rootRenderSurface of
        Inl e \<Rightarrow> Inl e
      | Inr (u, st1) \<Rightarrow>
          (case heap_renderTargets st1 u of
             None \<Rightarrow> Inl TypeError
           | Some rt \<Rightarrow>
               (case push (st1\<lparr>rootRenderTarget := Some u,
                                rootProjectionMatrix := projectionMatrix rt,
                                renderTargetStack := [],
                                events := events st1 @ [EncoderStart]\<rparr>)
                          rootRenderSurface clr clearColor of
                  Inl e \<Rightarrow> Inl e
                | Inr (r, st2) \<Rightarrow> Inr st2)))"

definition contextChange :: "GpuRenderTargetSystem \<Rightarrow> nat \<Rightarrow> GpuRenderTargetSystem" where
  "contextChange st device = st\<lparr>gpu := Some device\<rparr>"

definition restart :: "GpuRenderTargetSystem \<Rightarrow> error + GpuRenderTargetSystem" where
  "restart st =
     (case rootRenderTarget st of
        None \<Rightarrow> Inl TypeError
      | Some rootTarget \<Rightarrow>
          (case bind st (RenderTargetSurface rootTarget) False None of
             Inl e \<Rightarrow> Inl e
           | Inr (u, st1) \<Rightarrow> Inr st1))"

section \<open>Notions used in the properties\<close>

text \<open>A render target that exists and is marked root.\<close>

definition is_root :: "GpuRenderTargetSystem \<Rightarrow> nat \<Rightarrow> bool" where
  "is_root st u = (case heap_renderTargets st u of None \<Rightarrow> False | Some rt \<Rightarrow> isRoot rt)"

text \<open>What a render target is made of, without its root flag and matrix.\<close>

definition target_shape :: "GpuRenderTargetSystem \<Rightarrow> nat \<Rightarrow> (nat list \<times> nat option \<times> int \<times> int) option" where
  "target_shape st u =
     (case heap_renderTargets st u of
        None \<Rightarrow> None
      | Some rt \<Rightarrow> Some (colorTextures rt, depthTexture rt, rt_width rt, rt_height rt))"

text \<open>A texture source without its sample count.\<close>

definition source_shape ::
  "TextureSource \<Rightarrow> Resource \<times> bool \<times> int \<times> int \<times> real \<times> nat option" where
  "source_shape s = (resource s, antialias s, ts_width s, ts_height s, resolution s, depthStencil s)"

text \<open>
  What \<^verbatim>\<open>bind\<close> and the methods below it never change: the root target and matrix, the
  stack, the device, the textures, the browser, and every source up to its sample count.
\<close>

definition kept :: "GpuRenderTargetSystem \<Rightarrow> GpuRenderTargetSystem \<Rightarrow> bool" where
  "kept st st' \<longleftrightarrow>
     rootRenderTarget st' = rootRenderTarget st \<and>
     rootProjectionMatrix st' = rootProjectionMatrix st \<and>
     renderTargetStack st' = renderTargetStack st \<and>
     gpu st' = gpu st \<and>
     heap_textures st' = heap_textures st \<and>
     env_getContext st' = env_getContext st \<and>
     env_configure_throws st' = env_configure_throws st \<and>
     env_projection st' = env_projection st \<and>
     (\<forall>k. map_option source_shape (heap_sources st' k) = map_option source_shape (heap_sources st k))"

text \<open>\<^verbatim>\<open>colorTexture.source.antialias\<close>, for a texture whose source exists.\<close>

definition wants_msaa :: "GpuRenderTargetSystem \<Rightarrow> nat \<Rightarrow> bool" where
  "wants_msaa st t = (case texture_source st t of None \<Rightarrow> False | Some s \<Rightarrow> antialias s)"

text \<open>\<^verbatim>\<open>colorTexture.source.resource instanceof HTMLCanvasElement\<close>.\<close>

definition canvas_backed :: "GpuRenderTargetSystem \<Rightarrow> nat \<Rightarrow> bool" where
  "canvas_backed st t =
     (case texture_source st t of
        None \<Rightarrow> False
      | Some s \<Rightarrow> (case resource s of HTMLCanvasElement _ \<Rightarrow> True | _ \<Rightarrow> False))"

text \<open>
  \<^verbatim>\<open>renderTarget.colorTexture.source.resource.getContext('webgpu')\<close>: the context of the
  first color texture.
\<close>

definition firstContext :: "GpuRenderTargetSystem \<Rightarrow> RenderTarget \<Rightarrow> nat option" where
  "firstContext st rt =
     (case colorTextures rt of
        [] \<Rightarrow> None
      | t0 # _ \<Rightarrow>
          (case texture_source st t0 of
             None \<Rightarrow> None
           | Some s0 \<Rightarrow> env_getContext st (resource s0)))"

text \<open>The configuration of a context ends in the \<^verbatim>\<open>catch\<close> block.\<close>

definition configure_fails :: "GpuRenderTargetSystem \<Rightarrow> nat option \<Rightarrow> bool" where
  "configure_fails st c =
     (case c of None \<Rightarrow> True | Some x \<Rightarrow> gpu st = None \<or> env_configure_throws st x)"

text \<open>A multisample texture resized to the source of a color texture.\<close>

definition resizeTo :: "GpuRenderTargetSystem \<Rightarrow> nat \<Rightarrow> TextureSource \<Rightarrow> TextureSource" where
  "resizeTo st t m =
     (case texture_source st t of
        None \<Rightarrow> m
      | Some s \<Rightarrow> resize m (ts_width s) (ts_height s) (resolution s))"

text \<open>The resource of the first color texture has a \<^verbatim>\<open>getContext\<close> method.\<close>

definition can_getContext :: "GpuRenderTargetSystem \<Rightarrow> nat list \<Rightarrow> bool" where
  "can_getContext st cts =
     (case cts of
        [] \<Rightarrow> False
      | t0 # _ \<Rightarrow>
          (case texture_source st t0 of
             None \<Rightarrow> False
           | Some s0 \<Rightarrow> resource s0 \<noteq> NoCanvas))"

text \<open>
  A render target that the system can set up and bind without reading a property of
  \<^verbatim>\<open>undefined\<close>: it exists, its color textures and its depth texture have their
  sources, and if an attachment is backed by a canvas then the first color texture can give
  a context.
\<close>

definition valid_target :: "GpuRenderTargetSystem \<Rightarrow> nat \<Rightarrow> bool" where
  "valid_target st u =
     (case target_shape st u of
        None \<Rightarrow> False
      | Some (cts, d, w, h) \<Rightarrow>
          list_all (\<lambda>t. texture_source st t \<noteq> None) cts \<and>
          (list_ex (canvas_backed st) cts \<longrightarrow> can_getContext st cts) \<and>
          (case d of None \<Rightarrow> True | Some dt \<Rightarrow> texture_source st dt \<noteq> None))"

text \<open>
  The constructor: the fields of a new system, in a world of the given render targets,
  textures, sources, uid counter and browser. \<^verbatim>\<open>contextChange\<close> has not run yet.
\<close>

definition new_GpuRenderTargetSystem ::
  "(nat \<rightharpoonup> RenderTarget) \<Rightarrow> (nat \<rightharpoonup> Texture) \<Rightarrow> (nat \<rightharpoonup> TextureSource) \<Rightarrow> nat \<Rightarrow>
   (Resource \<Rightarrow> nat option) \<Rightarrow> (nat \<Rightarrow> bool) \<Rightarrow> (int \<Rightarrow> int \<Rightarrow> Matrix) \<Rightarrow> GpuRenderTargetSystem" where
  "new_GpuRenderTargetSystem rts txs srcs n getc thr proj =
     \<lparr>rootRenderTarget = None, rootProjectionMatrix = new_Matrix, renderTarget = None,
      renderSurfaceToRenderTargetHash = Map.empty, gpuRenderTargetHash = Map.empty,
      renderTargetStack = [], gpu = None,
      heap_renderTargets = rts, heap_textures = txs, heap_sources = srcs, next_uid = n,
      env_getContext = getc, env_configure_throws = thr, env_projection = proj,
      events = []\<rparr>"


text \<open>Every render target held by one of the two hashes is marked root.\<close>

definition roots_marked :: "GpuRenderTargetSystem \<Rightarrow> bool" where
  "roots_marked st \<longleftrightarrow>
     (\<forall>S u. renderSurfaceToRenderTargetHash st S = Some u \<longrightarrow> is_root st u) \<and>
     (\<forall>u g. gpuRenderTargetHash st u = Some g \<longrightarrow> is_root st u)"

text \<open>
  A browser in which every canvas gives a context; a canvas-backed texture (0), an
  antialiased texture (1), a plain texture with a depth/stencil texture (2, 3); a render
  target on the canvas (0), one on textures 1 and 2, whose antialias flags differ (1), and
  an antialiased one with a depth texture (2). The argument of \<open>example_system\<close> says
  whether \<^verbatim>\<open>configure\<close> throws.
\<close>

definition browser_getContext :: "Resource \<Rightarrow> nat option" where
  "browser_getContext r =
     (case r of HTMLCanvasElement c \<Rightarrow> Some c | OffscreenCanvas c \<Rightarrow> Some c | NoCanvas \<Rightarrow> None)"

text \<open>
  A surface that \<^verbatim>\<open>getRenderTarget\<close> resolves to a valid render target: one the hash
  holds, a render target, or a \<^verbatim>\<open>Texture\<close> whose source and depth/stencil exist.
\<close>

definition valid_surface :: "GpuRenderTargetSystem \<Rightarrow> RenderSurface \<Rightarrow> bool" where
  "valid_surface st S =
     (case renderSurfaceToRenderTargetHash st S of
        Some u \<Rightarrow> valid_target st u
      | None \<Rightarrow>
          (case S of
             RenderTargetSurface u \<Rightarrow> valid_target st u
           | TextureSurface t \<Rightarrow>
               (case texture_source st t of
                  None \<Rightarrow> False
                | Some s \<Rightarrow>
                    (case depthStencil s of
                       None \<Rightarrow> True
                     | Some d \<Rightarrow> texture_source st d \<noteq> None))
           | _ \<Rightarrow> False))"

text \<open>The hash maps a render target used as a surface to itself.\<close>

definition surfaces_consistent :: "GpuRenderTargetSystem \<Rightarrow> bool" where
  "surfaces_consistent st \<longleftrightarrow>
     (\<forall>u v. renderSurfaceToRenderTargetHash st (RenderTargetSurface u) = Some v \<longrightarrow> v = u)"

text \<open>
  The states the system can be in: those of a new system, and those that one of the
  public methods above returns from one of them.
\<close>

inductive reachable :: "GpuRenderTargetSystem \<Rightarrow> bool" where
  constructed: "reachable (new_GpuRenderTargetSystem rts txs srcs n getc thr proj)"
  | after_contextChange: "reachable st \<Longrightarrow> reachable (contextChange st device)"
  | after_start: "reachable st \<Longrightarrow> start st S clr cc = Inr st' \<Longrightarrow> reachable st'"
  | after_bind: "reachable st \<Longrightarrow> bind st S clr cc = Inr (u, st') \<Longrightarrow> reachable st'"
  | after_push: "reachable st \<Longrightarrow> push st S clr cc = Inr (u, st') \<Longrightarrow> reachable st'"
  | after_pop: "reachable st \<Longrightarrow> pop st = Inr st' \<Longrightarrow> reachable st'"
  | after_restart: "reachable st \<Longrightarrow> restart st = Inr st' \<Longrightarrow> reachable st'"
  | after_getRenderTarget: "reachable st \<Longrightarrow> getRenderTarget st S = Inr (u, st') \<Longrightarrow> reachable st'"
  | after_getDescriptor: "reachable st \<Longrightarrow> getDescriptor st u clr cv = Inr (d, st') \<Longrightarrow> reachable st'"

subsection \<open>An example scene\<close>

definition example_sources :: "nat \<rightharpoonup> TextureSource" where
  "example_sources =
     [0 \<mapsto> \<lparr>resource = HTMLCanvasElement 0, antialias = False, ts_width = 800, ts_height = 600,
            resolution = 1, sampleCount = 1, depthStencil = None\<rparr>,
      1 \<mapsto> \<lparr>resource = NoCanvas, antialias = True, ts_width = 256, ts_height = 128,
            resolution = 2, sampleCount = 1, depthStencil = None\<rparr>,
      2 \<mapsto> \<lparr>resource = NoCanvas, antialias = False, ts_width = 256, ts_height = 128,
            resolution = 1, sampleCount = 1, depthStencil = Some 3\<rparr>,
      3 \<mapsto> \<lparr>resource = NoCanvas, antialias = False, ts_width = 256, ts_height = 128,
            resolution = 1, sampleCount = 1, depthStencil = None\<rparr>]"

definition example_textures :: "nat \<rightharpoonup> Texture" where
  "example_textures = [0 \<mapsto> \<lparr>source = 0\<rparr>, 1 \<mapsto> \<lparr>source = 1\<rparr>, 2 \<mapsto> \<lparr>source = 2\<rparr>, 3 \<mapsto> \<lparr>source = 3\<rparr>]"

definition example_targets :: "nat \<rightharpoonup> RenderTarget" where
  "example_targets =
     [0 \<mapsto> \<lparr>colorTextures = [0], depthTexture = None, rt_width = 800, rt_height = 600,
            isRoot = False, projectionMatrix = new_Matrix\<rparr>,
      1 \<mapsto> \<lparr>colorTextures = [1, 2], depthTexture = None, rt_width = 256, rt_height = 128,
            isRoot = False, projectionMatrix = new_Matrix\<rparr>,
      2 \<mapsto> \<lparr>colorTextures = [1], depthTexture = Some 3, rt_width = 256, rt_height = 128,
            isRoot = False, projectionMatrix = new_Matrix\<rparr>]"

definition example_system :: "bool \<Rightarrow> GpuRenderTargetSystem" where
  "example_system throws =
     contextChange
       (new_GpuRenderTargetSystem example_targets example_textures example_sources 3
          browser_getContext (\<lambda>c. throws) (\<lambda>w h. new_Matrix)) 7"

text \<open>
  The example scene after render target 2 was bound at 100 by 50 and its texture then grew
  to 256 by 128 at resolution 2.
\<close>

definition resized_example :: GpuRenderTargetSystem where
  "resized_example =
     (example_system False)
       \<lparr>renderSurfaceToRenderTargetHash := [RenderTargetSurface 2 \<mapsto> 2],
        gpuRenderTargetHash :=
          [2 \<mapsto> \<lparr>contexts = Map.empty,
                  msaaTextures = [0 \<mapsto> resize (new_TextureSource 0 0 4) 100 50 1],
                  msaa = True, msaaSamples = 4, gpu_width = Some 100, gpu_height = Some 50,
                  descriptor = None\<rparr>]\<rparr>"

section \<open>Properties\<close>

subsection \<open>What each method changes\<close>

lemma kept_refl [simp]: "kept st st"
  by (simp add: kept_def)

lemma kept_trans: "kept st st1 \<Longrightarrow> kept st1 st2 \<Longrightarrow> kept st st2"
  by (simp add: kept_def)

lemma kept_events [simp]: "kept st (st'\<lparr>events := es\<rparr>) = kept st st'" "kept (st\<lparr>events := es\<rparr>) st' = kept st st'"
  by (simp_all add: kept_def)

lemma kept_fields:
  "kept st st' \<Longrightarrow>
     rootRenderTarget st' = rootRenderTarget st \<and>
     rootProjectionMatrix st' = rootProjectionMatrix st \<and>
     renderTargetStack st' = renderTargetStack st \<and>
     gpu st' = gpu st \<and>
     heap_textures st' = heap_textures st \<and>
     env_getContext st' = env_getContext st \<and>
     env_configure_throws st' = env_configure_throws st \<and>
     env_projection st' = env_projection st"
  by (simp add: kept_def)

lemma kept_texture_source:
  "kept st st' \<Longrightarrow>
   map_option source_shape (texture_source st' t) = map_option source_shape (texture_source st t)"
  by (simp add: kept_def texture_source_def split: option.splits)

lemma texture_source_cong:
  "heap_textures st' = heap_textures st \<Longrightarrow> heap_sources st' = heap_sources st \<Longrightarrow>
   texture_source st' = texture_source st"
  by (rule ext) (simp add: texture_source_def split: option.splits)

lemma new_RenderTarget_Inr:
  "new_RenderTarget st cts d = Inr (u, st') \<Longrightarrow>
   u = next_uid st \<and> kept st st' \<and>
   (\<forall>v. v \<noteq> u \<longrightarrow> heap_renderTargets st' v = heap_renderTargets st v) \<and>
   heap_renderTargets st' u \<noteq> None \<and>
   map_option colorTextures (heap_renderTargets st' u) = Some cts \<and>
   map_option depthTexture (heap_renderTargets st' u) = Some d \<and>
   renderTarget st' = renderTarget st \<and>
   renderSurfaceToRenderTargetHash st' = renderSurfaceToRenderTargetHash st \<and>
   gpuRenderTargetHash st' = gpuRenderTargetHash st \<and>
   heap_sources st' = heap_sources st \<and>
   events st' = events st"
  by (auto simp: new_RenderTarget_def Let_def kept_def split: list.splits option.splits)

lemma initRenderTarget_Inr:
  "initRenderTarget st S = Inr (u, st') \<Longrightarrow>
   is_root st' u \<and> kept st st' \<and>
   (\<forall>v. is_root st v \<longrightarrow> is_root st' v) \<and>
   (\<forall>v. S = RenderTargetSurface v \<longrightarrow> u = v) \<and>
   renderTarget st' = renderTarget st \<and>
   renderSurfaceToRenderTargetHash st' = (renderSurfaceToRenderTargetHash st)(S \<mapsto> u) \<and>
   gpuRenderTargetHash st' = gpuRenderTargetHash st \<and>
   heap_sources st' = heap_sources st \<and>
   events st' = events st"
  apply (cases S)
  apply (auto simp: initRenderTarget_def is_root_def kept_def split: option.splits sum.splits if_splits dest!: new_RenderTarget_Inr)
  done

lemma events_id [simp]: "\<exists>es. st = st\<lparr>events := events st @ es\<rparr>"
  by (rule exI [of _ "[]"]) simp

lemma acquireContext_Inr:
  "acquireContext st rt = Inr (c, st') \<Longrightarrow> \<exists>es. st' = st\<lparr>events := events st @ es\<rparr>"
  by (auto simp: acquireContext_def split: list.splits option.splits if_splits)

lemma initColorTexture_Inr:
  "initColorTexture rt i t (g, st) = Inr (g', st') \<Longrightarrow> \<exists>es. st' = st\<lparr>events := events st @ es\<rparr>"
  by (auto simp: initColorTexture_def Let_def split: list.splits option.splits if_splits sum.splits Resource.splits dest!: acquireContext_Inr)

lemma texture_source_events [simp]: "texture_source (st\<lparr>events := es\<rparr>) = texture_source st"
  by (rule ext) (simp add: texture_source_def split: option.splits)

lemma initColorTextures_Inr:
  "initColorTextures rt i ts (g, st) = Inr (g', st') \<Longrightarrow> \<exists>es. st' = st\<lparr>events := events st @ es\<rparr>"
proof (induction ts arbitrary: i g st)
  case Nil
  then show ?case by simp
next
  case (Cons t ts)
  from Cons.prems obtain g1 st1 where
    a: "initColorTexture rt i t (g, st) = Inr (g1, st1)" and
    b: "initColorTextures rt (Suc i) ts (g1, st1) = Inr (g', st')"
    by (auto split: sum.splits)
  from initColorTexture_Inr [OF a] obtain es1 where "st1 = st\<lparr>events := events st @ es1\<rparr>" by blast
  moreover from Cons.IH [OF b] obtain es2 where "st' = st1\<lparr>events := events st1 @ es2\<rparr>" by blast
  ultimately have "st' = st\<lparr>events := events st @ (es1 @ es2)\<rparr>" by simp
  then show ?case by blast
qed

lemma wants_msaa_events [simp]: "wants_msaa (st\<lparr>events := es\<rparr>) = wants_msaa st"
  by (rule ext) (simp add: wants_msaa_def)

lemma canvas_backed_events [simp]: "canvas_backed (st\<lparr>events := es\<rparr>) = canvas_backed st"
  by (rule ext) (simp add: canvas_backed_def)

lemma firstContext_events [simp]: "firstContext (st\<lparr>events := es\<rparr>) = firstContext st"
  by (rule ext) (simp add: firstContext_def split: list.splits option.splits)

lemma configure_fails_events [simp]: "configure_fails (st\<lparr>events := es\<rparr>) = configure_fails st"
  by (rule ext) (simp add: configure_fails_def split: option.splits)

lemma acquireContext_result:
  "acquireContext st rt = Inr (c, st') \<Longrightarrow>
   c = firstContext st rt \<and> (configure_fails st c \<longrightarrow> ConsoleError \<in> set (events st'))"
  by (auto simp: acquireContext_def firstContext_def configure_fails_def
      split: list.splits option.splits if_splits; metis)

lemma initColorTexture_result:
  "initColorTexture rt i t (g, st) = Inr (g', st') \<Longrightarrow>
   msaaTextures g' = (if wants_msaa st t then (msaaTextures g)(i \<mapsto> new_TextureSource 0 0 4) else msaaTextures g) \<and>
   msaa g' = wants_msaa st t \<and>
   contexts g' = (if canvas_backed st t then (contexts g)(i := firstContext st rt) else contexts g) \<and>
   (canvas_backed st t \<longrightarrow> configure_fails st (firstContext st rt) \<longrightarrow> ConsoleError \<in> set (events st')) \<and>
   msaaSamples g' = msaaSamples g \<and> gpu_width g' = gpu_width g \<and> gpu_height g' = gpu_height g \<and>
   descriptor g' = descriptor g"
  by (auto simp: initColorTexture_def Let_def wants_msaa_def canvas_backed_def
      split: option.splits if_splits sum.splits Resource.splits dest!: acquireContext_result)

lemma initColorTextures_result:
  "initColorTextures rt i ts (g, st) = Inr (g', st') \<Longrightarrow>
   msaaTextures g' =
     (\<lambda>j. if i \<le> j \<and> j < i + length ts \<and> wants_msaa st (ts ! (j - i))
          then Some (new_TextureSource 0 0 4) else msaaTextures g j) \<and>
   msaa g' = (if ts = [] then msaa g else wants_msaa st (last ts)) \<and>
   contexts g' =
     (\<lambda>j. if i \<le> j \<and> j < i + length ts \<and> canvas_backed st (ts ! (j - i))
          then firstContext st rt else contexts g j) \<and>
   ((\<exists>t\<in>set ts. canvas_backed st t) \<longrightarrow> configure_fails st (firstContext st rt) \<longrightarrow>
      ConsoleError \<in> set (events st')) \<and>
   msaaSamples g' = msaaSamples g \<and> gpu_width g' = gpu_width g \<and> gpu_height g' = gpu_height g \<and>
   descriptor g' = descriptor g"
proof (induction ts arbitrary: i g st)
  case Nil
  then show ?case by (auto simp: fun_eq_iff)
next
  case (Cons t ts)
  from Cons.prems obtain g1 st1 where
    a: "initColorTexture rt i t (g, st) = Inr (g1, st1)" and
    b: "initColorTextures rt (Suc i) ts (g1, st1) = Inr (g', st')"
    by (auto split: sum.splits)
  from initColorTexture_Inr [OF a] obtain es1 where s1: "st1 = st\<lparr>events := events st @ es1\<rparr>" by blast
  from initColorTextures_Inr [OF b] obtain es2 where s2: "st' = st1\<lparr>events := events st1 @ es2\<rparr>" by blast
  note r1 = initColorTexture_result [OF a]
  note r2 = Cons.IH [OF b]
  have m: "msaaTextures g' =
     (\<lambda>j. if i \<le> j \<and> j < i + length (t # ts) \<and> wants_msaa st ((t # ts) ! (j - i))
          then Some (new_TextureSource 0 0 4) else msaaTextures g j)"
    using r1 r2 s1 by (auto simp: fun_eq_iff nth_Cons' Suc_diff_Suc)
  have c: "contexts g' =
     (\<lambda>j. if i \<le> j \<and> j < i + length (t # ts) \<and> canvas_backed st ((t # ts) ! (j - i))
          then firstContext st rt else contexts g j)"
    using r1 r2 s1 by (auto simp: fun_eq_iff nth_Cons' Suc_diff_Suc)
  have e: "(\<exists>x\<in>set (t # ts). canvas_backed st x) \<longrightarrow> configure_fails st (firstContext st rt) \<longrightarrow>
      ConsoleError \<in> set (events st')"
    using r1 r2 s1 s2 by auto
  have rest: "msaa g' = (if t # ts = [] then msaa g else wants_msaa st (last (t # ts)))"
   "msaaSamples g' = msaaSamples g" "gpu_width g' = gpu_width g" "gpu_height g' = gpu_height g"
   "descriptor g' = descriptor g"
    using r1 r2 s1 by auto
  from m c e rest show ?case by blast
qed

lemma kept_wants_msaa: "kept st st' \<Longrightarrow> wants_msaa st' t = wants_msaa st t"
  using kept_texture_source [of st st' t]
  by (auto simp: wants_msaa_def source_shape_def split: option.splits)

lemma kept_canvas_backed: "kept st st' \<Longrightarrow> canvas_backed st' t = canvas_backed st t"
  using kept_texture_source [of st st' t]
  by (auto simp: canvas_backed_def source_shape_def split: option.splits)

lemma kept_firstContext: "kept st st' \<Longrightarrow> firstContext st' rt = firstContext st rt"
proof (cases "colorTextures rt")
  case Nil
  then show ?thesis by (simp add: firstContext_def)
next
  case (Cons t0 ts)
  assume k: "kept st st'"
  from kept_texture_source [OF k, of t0] kept_fields [OF k] Cons show ?thesis 
    by (auto simp: firstContext_def source_shape_def split: option.splits)
qed

lemma kept_configure_fails: "kept st st' \<Longrightarrow> configure_fails st' c = configure_fails st c"
  by (auto simp: configure_fails_def dest!: kept_fields split: option.splits)

lemma setDepthSampleCount_Inr:
  "setDepthSampleCount st d n = Inr st' \<Longrightarrow>
   kept st st' \<and>
   heap_renderTargets st' = heap_renderTargets st \<and>
   renderTarget st' = renderTarget st \<and>
   renderSurfaceToRenderTargetHash st' = renderSurfaceToRenderTargetHash st \<and>
   gpuRenderTargetHash st' = gpuRenderTargetHash st \<and>
   next_uid st' = next_uid st \<and>
   events st' = events st"
  by (auto simp: setDepthSampleCount_def kept_def source_shape_def split: option.splits)

lemma initGpuRenderTarget_Inr:
  "initGpuRenderTarget st u = Inr (g, st') \<Longrightarrow>
   kept st st' \<and>
   is_root st' u \<and>
   (\<forall>v. is_root st v \<longrightarrow> is_root st' v) \<and>
   target_shape st' = target_shape st \<and>
   renderTarget st' = renderTarget st \<and>
   renderSurfaceToRenderTargetHash st' = renderSurfaceToRenderTargetHash st \<and>
   gpuRenderTargetHash st' = (gpuRenderTargetHash st)(u \<mapsto> g) \<and>
   next_uid st' = next_uid st \<and>
   set (events st) \<subseteq> set (events st')"
  apply (clarsimp simp: initGpuRenderTarget_def Let_def split: option.splits sum.splits if_splits prod.splits)
  apply (auto dest!: initColorTextures_Inr setDepthSampleCount_Inr simp: is_root_def target_shape_def fun_eq_iff kept_def)
  done

subsection \<open>What first-time backend setup builds\<close>

lemma texture_source_heap_rt [simp]:
  "texture_source (st\<lparr>heap_renderTargets := h\<rparr>) = texture_source st"
  by (rule ext) (simp add: texture_source_def split: option.splits)

lemma wants_msaa_heap_rt [simp]: "wants_msaa (st\<lparr>heap_renderTargets := h\<rparr>) = wants_msaa st"
  by (rule ext) (simp add: wants_msaa_def)

lemma canvas_backed_heap_rt [simp]: "canvas_backed (st\<lparr>heap_renderTargets := h\<rparr>) = canvas_backed st"
  by (rule ext) (simp add: canvas_backed_def)

lemma firstContext_heap_rt [simp]: "firstContext (st\<lparr>heap_renderTargets := h\<rparr>) = firstContext st"
  by (rule ext) (simp add: firstContext_def split: list.splits option.splits)

lemma configure_fails_heap_rt [simp]: "configure_fails (st\<lparr>heap_renderTargets := h\<rparr>) = configure_fails st"
  by (rule ext) (simp add: configure_fails_def split: option.splits)

lemma firstContext_isRoot [simp]: "firstContext st (rt\<lparr>isRoot := b\<rparr>) = firstContext st rt"
  by (simp add: firstContext_def)

lemma initGpuRenderTarget_result:
  assumes "initGpuRenderTarget st u = Inr (g, st')" and "heap_renderTargets st u = Some rt"
  shows "msaaTextures g =
       (\<lambda>j. if j < length (colorTextures rt) \<and> wants_msaa st (colorTextures rt ! j)
            then Some (new_TextureSource 0 0 4) else None)"
    and "msaa g = (colorTextures rt \<noteq> [] \<and> wants_msaa st (last (colorTextures rt)))"
    and "msaaSamples g = (if msaa g then 4 else 1)"
    and "contexts g =
       (\<lambda>j. if j < length (colorTextures rt) \<and> canvas_backed st (colorTextures rt ! j)
            then firstContext st rt else None)"
    and "gpu_width g = None" and "gpu_height g = None" and "descriptor g = None"
    and "(\<exists>t\<in>set (colorTextures rt). canvas_backed st t) \<longrightarrow> configure_fails st (firstContext st rt) \<longrightarrow>
           ConsoleError \<in> set (events st')"
proof -
  let ?rt = "rt\<lparr>isRoot := True\<rparr>"
  let ?st1 = "st\<lparr>heap_renderTargets := (heap_renderTargets st)(u \<mapsto> ?rt)\<rparr>"
  from assms obtain g0 st2 where
    loop: "initColorTextures ?rt 0 (colorTextures rt) (new_GpuRenderTarget, ?st1) = Inr (g0, st2)"
    by (auto simp: initGpuRenderTarget_def Let_def split: sum.splits)
  note r = initColorTextures_result [OF loop]
  from assms loop have g: "g = (if msaa g0 then g0\<lparr>msaaSamples := 4\<rparr> else g0)"
    by (auto simp: initGpuRenderTarget_def Let_def split: sum.splits option.splits if_splits)
  from assms loop have ev: "set (events st2) \<subseteq> set (events st')"
    by (auto simp: initGpuRenderTarget_def Let_def split: sum.splits option.splits if_splits
        dest!: setDepthSampleCount_Inr)
  show "msaaTextures g =
       (\<lambda>j. if j < length (colorTextures rt) \<and> wants_msaa st (colorTextures rt ! j)
            then Some (new_TextureSource 0 0 4) else None)"
    using r g by (auto simp: new_GpuRenderTarget_def fun_eq_iff)
  show "msaa g = (colorTextures rt \<noteq> [] \<and> wants_msaa st (last (colorTextures rt)))"
    using r g by (auto simp: new_GpuRenderTarget_def)
  show "msaaSamples g = (if msaa g then 4 else 1)"
    using r g by (auto simp: new_GpuRenderTarget_def)
  show "contexts g =
       (\<lambda>j. if j < length (colorTextures rt) \<and> canvas_backed st (colorTextures rt ! j)
            then firstContext st rt else None)"
    using r g by (auto simp: new_GpuRenderTarget_def fun_eq_iff)
  show "gpu_width g = None" "gpu_height g = None" "descriptor g = None"
    using r g by (auto simp: new_GpuRenderTarget_def)
  show "(\<exists>t\<in>set (colorTextures rt). canvas_backed st t) \<longrightarrow> configure_fails st (firstContext st rt) \<longrightarrow>
           ConsoleError \<in> set (events st')"
    using r ev by auto
qed

lemma getGpuRenderTarget_Inr:
  "getGpuRenderTarget st u = Inr (g, st') \<Longrightarrow>
   kept st st' \<and>
   (\<forall>v. is_root st v \<longrightarrow> is_root st' v) \<and>
   target_shape st' = target_shape st \<and>
   renderTarget st' = renderTarget st \<and>
   renderSurfaceToRenderTargetHash st' = renderSurfaceToRenderTargetHash st \<and>
   gpuRenderTargetHash st' = (gpuRenderTargetHash st)(u \<mapsto> g) \<and>
   gpuRenderTargetHash st' u = Some g \<and>
   next_uid st' = next_uid st \<and>
   set (events st) \<subseteq> set (events st')"
  by (auto simp: getGpuRenderTarget_def split: option.splits dest!: initGpuRenderTarget_Inr)


subsection \<open>What resizing and binding build\<close>

lemma resizeMsaaTextures_result:
  "resizeMsaaTextures st i ts g = Inr g' \<Longrightarrow>
   msaaTextures g' =
     (\<lambda>j. if i \<le> j \<and> j < i + length ts
          then map_option (resizeTo st (ts ! (j - i))) (msaaTextures g j)
          else msaaTextures g j) \<and>
   (\<forall>j. i \<le> j \<and> j < i + length ts \<and> msaaTextures g j \<noteq> None \<longrightarrow> texture_source st (ts ! (j - i)) \<noteq> None) \<and>
   contexts g' = contexts g \<and> msaa g' = msaa g \<and> msaaSamples g' = msaaSamples g \<and>
   gpu_width g' = gpu_width g \<and> gpu_height g' = gpu_height g \<and> descriptor g' = descriptor g"
proof (induction ts arbitrary: i g)
  case Nil
  then show ?case by (auto simp: fun_eq_iff)
next
  case (Cons t ts)
  show ?case
  proof (cases "msaaTextures g i")
    case None
    with Cons.prems have b: "resizeMsaaTextures st (Suc i) ts g = Inr g'" by simp
    have e: "\<And>x. \<not> Suc i \<le> x \<Longrightarrow> i \<le> x \<Longrightarrow> x = i" by arith
    from Cons.IH [OF b] None show ?thesis
      by (auto simp: fun_eq_iff nth_Cons' Suc_diff_Suc dest: e)
  next
    case (Some m)
    with Cons.prems obtain s where s: "texture_source st t = Some s" and
      b: "resizeMsaaTextures st (Suc i) ts
            (g\<lparr>msaaTextures := (msaaTextures g)(i \<mapsto> resize m (ts_width s) (ts_height s) (resolution s))\<rparr>) = Inr g'"
      by (auto split: option.splits)
    have e: "\<And>x. \<not> Suc i \<le> x \<Longrightarrow> i \<le> x \<Longrightarrow> x = i" by arith
    from Cons.IH [OF b] Some s show ?thesis
      by (auto simp: fun_eq_iff nth_Cons' Suc_diff_Suc resizeTo_def dest: e)
  qed
qed

lemma resizeGpuRenderTarget_cached:
  assumes "resizeGpuRenderTarget st u = Inr (g', st')"
    and "gpuRenderTargetHash st u = Some g" and "heap_renderTargets st u = Some rt"
  shows "st' = st\<lparr>gpuRenderTargetHash := (gpuRenderTargetHash st)(u \<mapsto> g')\<rparr>"
    and "gpu_width g' = Some (rt_width rt)" and "gpu_height g' = Some (rt_height rt)"
    and "msaaTextures g' =
       (if msaa g
        then (\<lambda>j. if j < length (colorTextures rt)
                  then map_option (resizeTo st (colorTextures rt ! j)) (msaaTextures g j)
                  else msaaTextures g j)
        else msaaTextures g)"
    and "msaa g \<longrightarrow> (\<forall>j. j < length (colorTextures rt) \<and> msaaTextures g j \<noteq> None \<longrightarrow>
           texture_source st (colorTextures rt ! j) \<noteq> None)"
    and "contexts g' = contexts g" and "msaa g' = msaa g" and "msaaSamples g' = msaaSamples g"
    and "descriptor g' = descriptor g"
  using assms
  by (auto simp: resizeGpuRenderTarget_def getGpuRenderTarget_def Let_def
      split: sum.splits if_splits dest!: resizeMsaaTextures_result)

lemma colorAttachment_fields [simp]:
  "loadOp (colorAttachment g u lop cv it) = lop"
  "storeOp (colorAttachment g u lop cv it) = Store"
  "clearValue (colorAttachment g u lop cv it) = (case cv of Some c \<Rightarrow> c | None \<Rightarrow> DEFAULT_CLEAR_COLOR)"
  by (simp_all add: colorAttachment_def Let_def split: prod.splits)

lemma getDescriptor_Inr:
  "getDescriptor st u clr cv = Inr (d, st') \<Longrightarrow>
   (\<exists>g rt. getGpuRenderTarget st u = Inr (g, st') \<and> heap_renderTargets st' u = Some rt \<and>
      colorAttachments d =
        map (colorAttachment g u (if clr then Clear else Load) cv) (enumerate 0 (colorTextures rt)))"
  by (auto simp: getDescriptor_def Let_def split: sum.splits option.splits)

lemma bind_Inr_cases:
  assumes "bind st S clr cc = Inr (u, st')"
  obtains st1 g st2 rt g1 st3 d st4 where
    "getRenderTarget st S = Inr (u, st1)"
    "getGpuRenderTarget (st1\<lparr>renderTarget := Some u\<rparr>) u = Inr (g, st2)"
    "heap_renderTargets st2 u = Some rt"
    "(if Some (rt_width rt) \<noteq> gpu_width g \<or> Some (rt_height rt) \<noteq> gpu_height g
      then resizeGpuRenderTarget st2 u else Inr (g, st2)) = Inr (g1, st3)"
    "getDescriptor st3 u clr cc = Inr (d, st4)"
    "st' = st4\<lparr>gpuRenderTargetHash := (gpuRenderTargetHash st4)(u \<mapsto> g1\<lparr>descriptor := Some d\<rparr>),
              events := events st4 @
                [BeginRenderPass u (g1\<lparr>descriptor := Some d\<rparr>),
                 SetMultisampleCount (msaaSamples (g1\<lparr>descriptor := Some d\<rparr>)),
                 OnRenderTargetChange u]\<rparr>"
  using assms
  by (auto simp: bind_def Let_def split: sum.splits option.splits prod.splits)

lemma getRenderTarget_Inr:
  "getRenderTarget st S = Inr (u, st') \<Longrightarrow>
   kept st st' \<and>
   (\<forall>v. is_root st v \<longrightarrow> is_root st' v) \<and>
   (renderSurfaceToRenderTargetHash st S = None \<longrightarrow> is_root st' u) \<and>
   (\<forall>v. S = RenderTargetSurface v \<longrightarrow> renderSurfaceToRenderTargetHash st S = None \<longrightarrow> u = v) \<and>
   renderTarget st' = renderTarget st \<and>
   renderSurfaceToRenderTargetHash st' = (renderSurfaceToRenderTargetHash st)(S \<mapsto> u) \<and>
   gpuRenderTargetHash st' = gpuRenderTargetHash st \<and>
   events st' = events st"
  by (auto simp: getRenderTarget_def split: option.splits dest!: initRenderTarget_Inr)

lemma kept_renderTarget_upd [simp]:
  "kept st (st'\<lparr>renderTarget := x\<rparr>) = kept st st'" "kept (st\<lparr>renderTarget := x\<rparr>) st' = kept st st'"
  by (simp_all add: kept_def)

lemma kept_gpuHash_upd [simp]:
  "kept st (st'\<lparr>gpuRenderTargetHash := h\<rparr>) = kept st st'" "kept (st\<lparr>gpuRenderTargetHash := h\<rparr>) st' = kept st st'"
  by (simp_all add: kept_def)

lemma is_root_upds [simp]:
  "is_root (st\<lparr>renderTarget := x\<rparr>) = is_root st"
  "is_root (st\<lparr>gpuRenderTargetHash := h\<rparr>) = is_root st"
  "is_root (st\<lparr>events := es\<rparr>) = is_root st"
  by (simp_all add: is_root_def fun_eq_iff)

lemma target_shape_upds [simp]:
  "target_shape (st\<lparr>renderTarget := x\<rparr>) = target_shape st"
  "target_shape (st\<lparr>gpuRenderTargetHash := h\<rparr>) = target_shape st"
  "target_shape (st\<lparr>events := es\<rparr>) = target_shape st"
  by (simp_all add: target_shape_def fun_eq_iff)

lemma colorAttachment_descriptor [simp]:
  "colorAttachment (g\<lparr>descriptor := x\<rparr>) = colorAttachment g"
  by (simp add: colorAttachment_def fun_eq_iff)

lemma bind_Inr_full:
  assumes "bind st S clr cc = Inr (u, st')"
  obtains st1 g st2 rt g1 d where
    "getRenderTarget st S = Inr (u, st1)"
    "getGpuRenderTarget (st1\<lparr>renderTarget := Some u\<rparr>) u = Inr (g, st2)"
    "heap_renderTargets st2 u = Some rt"
    "if Some (rt_width rt) \<noteq> gpu_width g \<or> Some (rt_height rt) \<noteq> gpu_height g
     then resizeGpuRenderTarget st2 u =
            Inr (g1, st2\<lparr>gpuRenderTargetHash := (gpuRenderTargetHash st2)(u \<mapsto> g1)\<rparr>)
     else g1 = g"
    "colorAttachments d =
       map (colorAttachment g1 u (if clr then Clear else Load) cc) (enumerate 0 (colorTextures rt))"
    "st' = st2\<lparr>gpuRenderTargetHash := (gpuRenderTargetHash st2)(u \<mapsto> g1\<lparr>descriptor := Some d\<rparr>),
              events := events st2 @
                [BeginRenderPass u (g1\<lparr>descriptor := Some d\<rparr>),
                 SetMultisampleCount (msaaSamples g1),
                 OnRenderTargetChange u]\<rparr>"
proof -
  from assms obtain st1 g st2 rt g1 st3 d st4 where
    a: "getRenderTarget st S = Inr (u, st1)" and
    b: "getGpuRenderTarget (st1\<lparr>renderTarget := Some u\<rparr>) u = Inr (g, st2)" and
    c: "heap_renderTargets st2 u = Some rt" and
    r: "(if Some (rt_width rt) \<noteq> gpu_width g \<or> Some (rt_height rt) \<noteq> gpu_height g
      then resizeGpuRenderTarget st2 u else Inr (g, st2)) = Inr (g1, st3)" and
    e: "getDescriptor st3 u clr cc = Inr (d, st4)" and
    f: "st' = st4\<lparr>gpuRenderTargetHash := (gpuRenderTargetHash st4)(u \<mapsto> g1\<lparr>descriptor := Some d\<rparr>),
              events := events st4 @
                [BeginRenderPass u (g1\<lparr>descriptor := Some d\<rparr>),
                 SetMultisampleCount (msaaSamples (g1\<lparr>descriptor := Some d\<rparr>)),
                 OnRenderTargetChange u]\<rparr>"
    by (rule bind_Inr_cases)
  from getGpuRenderTarget_Inr [OF b] have h2: "gpuRenderTargetHash st2 u = Some g" by simp
  have st3: "st3 = st2\<lparr>gpuRenderTargetHash := (gpuRenderTargetHash st2)(u \<mapsto> g1)\<rparr>"
  proof (cases "Some (rt_width rt) \<noteq> gpu_width g \<or> Some (rt_height rt) \<noteq> gpu_height g")
    case True
    with r have "resizeGpuRenderTarget st2 u = Inr (g1, st3)" by simp
    from resizeGpuRenderTarget_cached(1) [OF this h2 c] show ?thesis .
  next
    case False
    with r have "g1 = g" "st3 = st2" by simp_all
    with h2 show ?thesis by (simp add: fun_upd_idem)
  qed
  have h3: "gpuRenderTargetHash st3 u = Some g1" and c3: "heap_renderTargets st3 u = Some rt"
    using st3 c by simp_all
  from h3 have "getGpuRenderTarget st3 u = Inr (g1, st3)" by (simp add: getGpuRenderTarget_def)
  with getDescriptor_Inr [OF e] c3 have st4: "st4 = st3" and
    d: "colorAttachments d =
       map (colorAttachment g1 u (if clr then Clear else Load) cc) (enumerate 0 (colorTextures rt))"
    by auto
  have r': "if Some (rt_width rt) \<noteq> gpu_width g \<or> Some (rt_height rt) \<noteq> gpu_height g
     then resizeGpuRenderTarget st2 u =
            Inr (g1, st2\<lparr>gpuRenderTargetHash := (gpuRenderTargetHash st2)(u \<mapsto> g1)\<rparr>)
     else g1 = g"
    using r st3 by (auto split: if_splits)
  have f': "st' = st2\<lparr>gpuRenderTargetHash := (gpuRenderTargetHash st2)(u \<mapsto> g1\<lparr>descriptor := Some d\<rparr>),
              events := events st2 @
                [BeginRenderPass u (g1\<lparr>descriptor := Some d\<rparr>),
                 SetMultisampleCount (msaaSamples g1),
                 OnRenderTargetChange u]\<rparr>"
    using f st4 st3 by simp
  from a b c r' d f' show thesis by (rule that)
qed

lemma bind_Inr:
  assumes "bind st S clr cc = Inr (u, st')"
  shows "kept st st'"
    and "renderTarget st' = Some u"
    and "renderSurfaceToRenderTargetHash st' = (renderSurfaceToRenderTargetHash st)(S \<mapsto> u)"
    and "\<exists>st1. getRenderTarget st S = Inr (u, st1)"
    and "is_root st v \<Longrightarrow> is_root st' v"
    and "set (events st) \<subseteq> set (events st')"
proof -
  from assms obtain st1 g st2 rt g1 d where
    a: "getRenderTarget st S = Inr (u, st1)" and
    b: "getGpuRenderTarget (st1\<lparr>renderTarget := Some u\<rparr>) u = Inr (g, st2)" and
    f: "st' = st2\<lparr>gpuRenderTargetHash := (gpuRenderTargetHash st2)(u \<mapsto> g1\<lparr>descriptor := Some d\<rparr>),
              events := events st2 @
                [BeginRenderPass u (g1\<lparr>descriptor := Some d\<rparr>),
                 SetMultisampleCount (msaaSamples g1),
                 OnRenderTargetChange u]\<rparr>"
    by (rule bind_Inr_full)
  note ra = getRenderTarget_Inr [OF a]
  note rb = getGpuRenderTarget_Inr [OF b]
  from ra rb have "kept st st1" "kept st1 st2" by simp_all
  then have "kept st st2" by (rule kept_trans)
  then show "kept st st'" using f by simp
  show "renderTarget st' = Some u" using f rb by simp
  show "renderSurfaceToRenderTargetHash st' = (renderSurfaceToRenderTargetHash st)(S \<mapsto> u)"
    using f ra rb by simp
  show "\<exists>st1. getRenderTarget st S = Inr (u, st1)" using a by blast
  show "is_root st v \<Longrightarrow> is_root st' v" using f ra rb by simp
  show "set (events st) \<subseteq> set (events st')" using f ra rb by auto
qed

subsection \<open>When backend setup succeeds\<close>

lemma kept_texture_source_None:
  "kept st st' \<Longrightarrow> texture_source st' t = None \<longleftrightarrow> texture_source st t = None"
  using kept_texture_source [of st st' t] by (metis map_option_is_None)

lemma kept_can_getContext: "kept st st' \<Longrightarrow> can_getContext st' cts = can_getContext st cts"
proof (cases cts)
  case Nil
  then show ?thesis by (simp add: can_getContext_def)
next
  case (Cons t0 ts)
  assume k: "kept st st'"
  from kept_texture_source [OF k, of t0] Cons show ?thesis 
    by (auto simp: can_getContext_def source_shape_def split: option.splits)
qed

lemma kept_valid_target:
  "kept st st' \<Longrightarrow> target_shape st' u = target_shape st u \<Longrightarrow> valid_target st' u = valid_target st u"
  by (simp add: valid_target_def kept_texture_source_None kept_can_getContext kept_canvas_backed
      list_all_iff list_ex_iff split: option.splits prod.splits)

lemma acquireContext_total:
  "can_getContext st (colorTextures rt) \<Longrightarrow> \<exists>c st'. acquireContext st rt = Inr (c, st')"
  by (auto simp: can_getContext_def acquireContext_def split: list.splits option.splits)

lemma can_getContext_events [simp]: "can_getContext (st\<lparr>events := es\<rparr>) = can_getContext st"
  by (rule ext) (simp add: can_getContext_def split: list.splits)

lemma initColorTexture_total:
  "texture_source st t \<noteq> None \<Longrightarrow> (canvas_backed st t \<longrightarrow> can_getContext st (colorTextures rt)) \<Longrightarrow>
   \<exists>g' st'. initColorTexture rt i t (g, st) = Inr (g', st')"
  by (auto simp: initColorTexture_def canvas_backed_def Let_def split: Resource.splits sum.splits
      dest: acquireContext_total)

lemma initColorTextures_total:
  "\<forall>t\<in>set ts. texture_source st t \<noteq> None \<Longrightarrow>
   (\<exists>t\<in>set ts. canvas_backed st t) \<longrightarrow> can_getContext st (colorTextures rt) \<Longrightarrow>
   \<exists>g' st'. initColorTextures rt i ts (g, st) = Inr (g', st')"
proof (induction ts arbitrary: i g st)
  case Nil
  then show ?case by simp
next
  case (Cons t ts)
  from Cons.prems have "texture_source st t \<noteq> None" "canvas_backed st t \<longrightarrow> can_getContext st (colorTextures rt)"
    by auto
  from initColorTexture_total [OF this] obtain g1 st1 where
    a: "initColorTexture rt i t (g, st) = Inr (g1, st1)" by blast
  from initColorTexture_Inr [OF a] obtain es where s1: "st1 = st\<lparr>events := events st @ es\<rparr>" by blast
  have "\<exists>g' st'. initColorTextures rt (Suc i) ts (g1, st1) = Inr (g', st')"
    by (rule Cons.IH) (use Cons.prems s1 in auto)
  with a show ?case by simp
qed

lemma setDepthSampleCount_total:
  "texture_source st d \<noteq> None \<Longrightarrow> \<exists>st'. setDepthSampleCount st d n = Inr st'"
  by (auto simp: setDepthSampleCount_def texture_source_def split: option.splits)

lemma can_getContext_heap_rt [simp]: "can_getContext (st\<lparr>heap_renderTargets := h\<rparr>) = can_getContext st"
  by (rule ext) (simp add: can_getContext_def split: list.splits)

lemma initGpuRenderTarget_total:
  assumes "valid_target st u"
  shows "\<exists>g st'. initGpuRenderTarget st u = Inr (g, st')"
proof -
  from assms obtain rt where rt: "heap_renderTargets st u = Some rt"
    and src: "\<forall>t\<in>set (colorTextures rt). texture_source st t \<noteq> None"
    and ctx: "(\<exists>t\<in>set (colorTextures rt). canvas_backed st t) \<longrightarrow> can_getContext st (colorTextures rt)"
    and dep: "\<And>d. depthTexture rt = Some d \<Longrightarrow> texture_source st d \<noteq> None"
    by (auto simp: valid_target_def target_shape_def list_all_iff list_ex_iff split: option.splits)
  let ?rt = "rt\<lparr>isRoot := True\<rparr>"
  let ?st1 = "st\<lparr>heap_renderTargets := (heap_renderTargets st)(u \<mapsto> ?rt)\<rparr>"
  have "\<exists>g' st'. initColorTextures ?rt 0 (colorTextures ?rt) (new_GpuRenderTarget, ?st1) = Inr (g', st')"
    by (rule initColorTextures_total) (use src ctx in auto)
  then obtain g0 st2 where
    loop: "initColorTextures ?rt 0 (colorTextures ?rt) (new_GpuRenderTarget, ?st1) = Inr (g0, st2)" by blast
  from initColorTextures_Inr [OF loop] obtain es where s2: "st2 = ?st1\<lparr>events := events ?st1 @ es\<rparr>" by blast
  have "\<And>d. depthTexture rt = Some d \<Longrightarrow> \<exists>st3. setDepthSampleCount st2 d 4 = Inr st3"
    by (rule setDepthSampleCount_total) (use dep s2 in simp)
  with rt loop show ?thesis
    by (auto simp: initGpuRenderTarget_def Let_def split: option.splits sum.splits)
qed

lemma getGpuRenderTarget_total:
  "valid_target st u \<Longrightarrow> \<exists>g st'. getGpuRenderTarget st u = Inr (g, st')"
  by (auto simp: getGpuRenderTarget_def split: option.splits dest: initGpuRenderTarget_total)

lemmas example_defs = example_system_def contextChange_def new_GpuRenderTargetSystem_def
  example_targets_def example_textures_def example_sources_def browser_getContext_def

lemmas run_defs = getRenderTarget_def initRenderTarget_def new_RenderTarget_def texture_source_def
  getGpuRenderTarget_def initGpuRenderTarget_def initColorTexture_def acquireContext_def
  setDepthSampleCount_def new_GpuRenderTarget_def new_TextureSource_def Let_def

subsection \<open>Starting a frame on a canvas\<close>

text \<open>
  C1. On a native canvas surface \<open>S\<close> (neither a \<^verbatim>\<open>RenderTarget\<close> nor a \<^verbatim>\<open>Texture\<close>
  instance) that the surface hash does not hold, \<^verbatim>\<open>getRenderTarget(S)\<close> and
  \<^verbatim>\<open>start(S, true, [1,0,0,1])\<close> raise a \<^verbatim>\<open>TypeError\<close>: \<^verbatim>\<open>initRenderTarget\<close> leaves
  \<^verbatim>\<open>renderTarget\<close> at \<^verbatim>\<open>null\<close> and the assignment to \<^verbatim>\<open>isRoot\<close> raises. No root
  render target is resolved, the stack is not reset and no pass begins.
\<close>

theorem start_canvas_raises:
  "renderSurfaceToRenderTargetHash st (CanvasSurface c) = None \<Longrightarrow>
   getRenderTarget st (CanvasSurface c) = Inl TypeError \<and>
   start st (CanvasSurface c) True (Some (1, 0, 0, 1)) = Inl TypeError"
  by (simp add: start_def getRenderTarget_def initRenderTarget_def)

theorem start_canvas_raises_witness:
  "renderSurfaceToRenderTargetHash (example_system False) (CanvasSurface 0) = None \<and>
   getRenderTarget (example_system False) (CanvasSurface 0) = Inl TypeError \<and>
   start (example_system False) (CanvasSurface 0) True (Some (1, 0, 0, 1)) = Inl TypeError"
proof -
  have h: "renderSurfaceToRenderTargetHash (example_system False) (CanvasSurface 0) = None"
    by (simp add: example_defs)
  from h start_canvas_raises [OF h] show ?thesis by simp
qed

subsection \<open>Multisampling after first-time backend setup\<close>




subsection \<open>Caching of render targets\<close>

lemma initRenderTarget_constructs:
  "initRenderTarget st S = Inr (u, st') \<Longrightarrow>
   (\<forall>v. v \<noteq> u \<longrightarrow> heap_renderTargets st' v = heap_renderTargets st v) \<and>
   next_uid st' \<le> Suc (next_uid st) \<and>
   (case S of
      TextureSurface t \<Rightarrow>
        u = next_uid st \<and> next_uid st' = Suc (next_uid st) \<and>
        map_option colorTextures (heap_renderTargets st' u) = Some [t]
    | RenderTargetSurface v \<Rightarrow>
        u = v \<and> next_uid st' = next_uid st \<and> target_shape st' = target_shape st
    | _ \<Rightarrow> False)"
  by (cases S)
    (auto simp: initRenderTarget_def new_RenderTarget_def Let_def target_shape_def fun_eq_iff
      split: option.splits sum.splits if_splits)

text \<open>
  C4. For every render surface \<open>S\<close>, once \<^verbatim>\<open>getRenderTarget(S)\<close> has returned a render
  target \<open>u\<close>, the surface hash holds \<open>S \<mapsto> u\<close>, and every later call returns \<open>u\<close> and
  changes nothing, also after any lookup of another surface and any bind in between. The
  call changes no render target but \<open>u\<close> and constructs at most one: on a hit it changes
  nothing at all; on a miss \<open>u\<close> is a render target of the store marked root, the one
  newly constructed around the texture for a \<^verbatim>\<open>Texture\<close> (the only case that draws a new
  uid), the surface itself for a \<^verbatim>\<open>RenderTarget\<close>. In every state in which the hashed
  targets are marked root, \<open>u\<close> is a render target of the store marked root.
\<close>

theorem getRenderTarget_reference_stable:
  assumes "getRenderTarget st S = Inr (u, st')"
  shows "renderSurfaceToRenderTargetHash st' S = Some u \<and>
         getRenderTarget st' S = Inr (u, st') \<and>
         (\<forall>S' v st''. getRenderTarget st' S' = Inr (v, st'') \<longrightarrow> getRenderTarget st'' S = Inr (u, st'')) \<and>
         (\<forall>S' clr cc v st''. bind st' S' clr cc = Inr (v, st'') \<longrightarrow> getRenderTarget st'' S = Inr (u, st'')) \<and>
         (\<forall>v. v \<noteq> u \<longrightarrow> heap_renderTargets st' v = heap_renderTargets st v) \<and>
         next_uid st' \<le> Suc (next_uid st) \<and>
         (case renderSurfaceToRenderTargetHash st S of
            Some w \<Rightarrow> w = u \<and> st' = st
          | None \<Rightarrow>
              is_root st' u \<and>
              (case S of
                 TextureSurface t \<Rightarrow>
                   u = next_uid st \<and> next_uid st' = Suc (next_uid st) \<and>
                   map_option colorTextures (heap_renderTargets st' u) = Some [t]
               | RenderTargetSurface v \<Rightarrow>
                   u = v \<and> next_uid st' = next_uid st \<and> target_shape st' = target_shape st
               | _ \<Rightarrow> False)) \<and>
         (roots_marked st \<longrightarrow> is_root st' u)"
proof -
  note r = getRenderTarget_Inr [OF assms]
  from r have h: "renderSurfaceToRenderTargetHash st' S = Some u" by simp
  then have again: "getRenderTarget st' S = Inr (u, st')" by (simp add: getRenderTarget_def)
  have keep: "getRenderTarget st'' S = Inr (u, st'')"
    if g: "getRenderTarget st' S' = Inr (v, st'')" for S' v st''
  proof -
    have "renderSurfaceToRenderTargetHash st'' S = Some u"
    proof (cases "S' = S")
      case True
      with g again have "v = u" by simp
      with getRenderTarget_Inr [OF g] True show ?thesis by simp
    next
      case False
      with getRenderTarget_Inr [OF g] h show ?thesis by simp
    qed
    then show ?thesis by (simp add: getRenderTarget_def)
  qed
  have keep_bind: "getRenderTarget st'' S = Inr (u, st'')"
    if b: "bind st' S' clr cc = Inr (v, st'')" for S' clr cc v st''
  proof -
    from bind_Inr(4) [OF b] obtain st1 where g: "getRenderTarget st' S' = Inr (v, st1)" by blast
    have "renderSurfaceToRenderTargetHash st'' S = Some u"
    proof (cases "S' = S")
      case True
      with g again have "v = u" by simp
      with bind_Inr(3) [OF b] True show ?thesis by simp
    next
      case False
      with bind_Inr(3) [OF b] h show ?thesis by simp
    qed
    then show ?thesis by (simp add: getRenderTarget_def)
  qed
  have built: "(\<forall>v. v \<noteq> u \<longrightarrow> heap_renderTargets st' v = heap_renderTargets st v) \<and>
         next_uid st' \<le> Suc (next_uid st) \<and>
         (case renderSurfaceToRenderTargetHash st S of
            Some w \<Rightarrow> w = u \<and> st' = st
          | None \<Rightarrow>
              is_root st' u \<and>
              (case S of
                 TextureSurface t \<Rightarrow>
                   u = next_uid st \<and> next_uid st' = Suc (next_uid st) \<and>
                   map_option colorTextures (heap_renderTargets st' u) = Some [t]
               | RenderTargetSurface v \<Rightarrow>
                   u = v \<and> next_uid st' = next_uid st \<and> target_shape st' = target_shape st
               | _ \<Rightarrow> False)) \<and>
         (roots_marked st \<longrightarrow> is_root st' u)"
  proof (cases "renderSurfaceToRenderTargetHash st S")
    case None
    with assms have i: "initRenderTarget st S = Inr (u, st')" by (simp add: getRenderTarget_def)
    from initRenderTarget_constructs [OF i] initRenderTarget_Inr [OF i] None show ?thesis by simp
  next
    case (Some w)
    with assms have "w = u" "st' = st" by (simp_all add: getRenderTarget_def)
    with Some show ?thesis by (simp add: roots_marked_def)
  qed
  from h again keep keep_bind built show ?thesis by blast
qed

theorem getRenderTarget_reference_stable_witness:
  "\<exists>st' st''.
     getRenderTarget (example_system False) (TextureSurface 2) = Inr (3, st') \<and>
     renderSurfaceToRenderTargetHash st' (TextureSurface 2) = Some 3 \<and>
     map_option colorTextures (heap_renderTargets st' 3) = Some [2] \<and>
     is_root st' 3 \<and> next_uid st' = 4 \<and>
     getRenderTarget st' (TextureSurface 2) = Inr (3, st') \<and>
     getRenderTarget st' (TextureSurface 1) = Inr (4, st'') \<and>
     getRenderTarget st'' (TextureSurface 2) = Inr (3, st'')"
proof -
  obtain st' st'' where
    a: "getRenderTarget (example_system False) (TextureSurface 2) = Inr (3, st')" and
    b: "getRenderTarget st' (TextureSurface 1) = Inr (4, st'')"
    by (simp add: example_defs run_defs)
  have n: "renderSurfaceToRenderTargetHash (example_system False) (TextureSurface 2) = None"
    "next_uid (example_system False) = 3"
    by (simp_all add: example_defs)
  from getRenderTarget_reference_stable [OF a] n b
  have "renderSurfaceToRenderTargetHash st' (TextureSurface 2) = Some 3"
    "map_option colorTextures (heap_renderTargets st' 3) = Some [2]"
    "is_root st' 3" "next_uid st' = 4"
    "getRenderTarget st' (TextureSurface 2) = Inr (3, st')"
    "getRenderTarget st'' (TextureSurface 2) = Inr (3, st'')"
    by auto
  with a b show ?thesis by blast
qed

subsection \<open>Caching of backend render targets\<close>



subsection \<open>A failing context configuration\<close>

text \<open>
  C9. If the configuration of the canvas context fails during first-time backend setup (the
  context is \<^verbatim>\<open>null\<close>, there is no device, or \<^verbatim>\<open>configure\<close> throws),
  \<^verbatim>\<open>initGpuRenderTarget\<close> still returns: the context is recorded for the attachment, the
  backend render target is stored, the error is logged, and the caller gets no error.
\<close>

theorem configure_failure_swallowed:
  assumes "heap_renderTargets st u = Some rt"
    and "valid_target st u"
    and "i < length (colorTextures rt)"
    and "canvas_backed st (colorTextures rt ! i)"
    and "configure_fails st (firstContext st rt)"
  shows "\<exists>g st'. initGpuRenderTarget st u = Inr (g, st') \<and>
           contexts g i = firstContext st rt \<and>
           gpuRenderTargetHash st' u = Some g \<and>
           ConsoleError \<in> set (events st') \<and>
           getGpuRenderTarget st' u = Inr (g, st')"
proof -
  from initGpuRenderTarget_total [OF assms(2)] obtain g st' where
    a: "initGpuRenderTarget st u = Inr (g, st')" by blast
  note r = initGpuRenderTarget_result [OF a assms(1)]
  from assms(3,4) have ex: "\<exists>t\<in>set (colorTextures rt). canvas_backed st t"
    using nth_mem by blast
  from r(4) assms(3,4) have "contexts g i = firstContext st rt" by simp
  moreover from initGpuRenderTarget_Inr [OF a] have h: "gpuRenderTargetHash st' u = Some g" by simp
  moreover from r(8) ex assms(5) have "ConsoleError \<in> set (events st')" by blast
  moreover from h have "getGpuRenderTarget st' u = Inr (g, st')" by (simp add: getGpuRenderTarget_def)
  ultimately show ?thesis using a by blast
qed

theorem configure_failure_swallowed_witness:
  "\<exists>g st'. initGpuRenderTarget (example_system True) 0 = Inr (g, st') \<and> contexts g 0 = Some 0 \<and>
     gpuRenderTargetHash st' 0 = Some g \<and> ConsoleError \<in> set (events st')"
proof -
  let ?rt = "\<lparr>colorTextures = [0], depthTexture = None, rt_width = 800, rt_height = 600,
            isRoot = False, projectionMatrix = new_Matrix\<rparr>"
  have a: "heap_renderTargets (example_system True) 0 = Some ?rt"
    by (simp add: example_defs)
  have b: "valid_target (example_system True) 0"
    by (simp add: example_defs valid_target_def target_shape_def texture_source_def canvas_backed_def
        can_getContext_def)
  have c: "0 < length (colorTextures ?rt)" by simp
  have d: "canvas_backed (example_system True) (colorTextures ?rt ! 0)"
    by (simp add: example_defs canvas_backed_def texture_source_def)
  have f: "firstContext (example_system True) ?rt = Some 0"
    by (simp add: example_defs firstContext_def texture_source_def)
  have e: "configure_fails (example_system True) (firstContext (example_system True) ?rt)"
    by (simp add: f) (simp add: example_defs configure_fails_def)
  from configure_failure_swallowed [OF a b c d e] f show ?thesis by auto
qed

subsection \<open>The root flag\<close>

lemma roots_marked_getRenderTarget:
  assumes "roots_marked st" and "getRenderTarget st S = Inr (u, st')"
  shows "is_root st' u" and "roots_marked st'"
proof -
  note r = getRenderTarget_Inr [OF assms(2)]
  show u: "is_root st' u"
  proof (cases "renderSurfaceToRenderTargetHash st S")
    case None
    with r show ?thesis by simp
  next
    case (Some v)
    with assms(2) have "v = u" by (simp add: getRenderTarget_def)
    with Some assms(1) have "is_root st u" by (simp add: roots_marked_def)
    with r show ?thesis by simp
  qed
  from assms(1) r u show "roots_marked st'"
    by (auto simp: roots_marked_def split: if_splits)
qed

lemma roots_marked_getGpuRenderTarget:
  assumes "roots_marked st" and "getGpuRenderTarget st u = Inr (g, st')"
  shows "is_root st' u" and "roots_marked st'"
proof -
  note r = getGpuRenderTarget_Inr [OF assms(2)]
  show u: "is_root st' u"
  proof (cases "gpuRenderTargetHash st u")
    case None
    with assms(2) have "initGpuRenderTarget st u = Inr (g, st')" by (simp add: getGpuRenderTarget_def)
    from initGpuRenderTarget_Inr [OF this] show ?thesis by simp
  next
    case (Some g0)
    with assms(1) have "is_root st u" by (simp add: roots_marked_def)
    with r show ?thesis by simp
  qed
  from assms(1) r u show "roots_marked st'"
    by (auto simp: roots_marked_def split: if_splits)
qed

lemma roots_marked_upds [simp]:
  "roots_marked (st\<lparr>renderTarget := x\<rparr>) = roots_marked st"
  "roots_marked (st\<lparr>events := es\<rparr>) = roots_marked st"
  "roots_marked (st\<lparr>renderTargetStack := s\<rparr>) = roots_marked st"
  "roots_marked (st\<lparr>rootRenderTarget := r\<rparr>) = roots_marked st"
  "roots_marked (st\<lparr>rootProjectionMatrix := m\<rparr>) = roots_marked st"
  "roots_marked (st\<lparr>gpu := d\<rparr>) = roots_marked st"
  by (simp_all add: roots_marked_def is_root_def)

lemma roots_marked_bind:
  assumes "roots_marked st" and "bind st S clr cc = Inr (u, st')"
  shows "is_root st' u" and "roots_marked st'"
proof -
  from assms(2) obtain st1 g st2 rt g1 d where
    a: "getRenderTarget st S = Inr (u, st1)" and
    b: "getGpuRenderTarget (st1\<lparr>renderTarget := Some u\<rparr>) u = Inr (g, st2)" and
    f: "st' = st2\<lparr>gpuRenderTargetHash := (gpuRenderTargetHash st2)(u \<mapsto> g1\<lparr>descriptor := Some d\<rparr>),
              events := events st2 @
                [BeginRenderPass u (g1\<lparr>descriptor := Some d\<rparr>),
                 SetMultisampleCount (msaaSamples g1),
                 OnRenderTargetChange u]\<rparr>"
    by (rule bind_Inr_full)
  from roots_marked_getRenderTarget [OF assms(1) a] have "roots_marked (st1\<lparr>renderTarget := Some u\<rparr>)" by simp
  from roots_marked_getGpuRenderTarget [OF this b] have u2: "is_root st2 u" and m2: "roots_marked st2" .
  from u2 f show "is_root st' u" by simp
  from m2 u2 f show "roots_marked st'" by (auto simp: roots_marked_def split: if_splits)
qed

lemma roots_marked_push:
  "roots_marked st \<Longrightarrow> push st S clr cc = Inr (u, st') \<Longrightarrow> is_root st' u \<and> roots_marked st'"
  by (auto simp: push_def is_root_def split: sum.splits dest: roots_marked_bind)

lemma roots_marked_pop: "roots_marked st \<Longrightarrow> pop st = Inr st' \<Longrightarrow> roots_marked st'"
  by (auto simp: pop_def Let_def split: sum.splits if_splits
      dest: roots_marked_bind(2) [rotated])

lemma roots_marked_restart: "roots_marked st \<Longrightarrow> restart st = Inr st' \<Longrightarrow> roots_marked st'"
  by (auto simp: restart_def split: sum.splits option.splits dest: roots_marked_bind(2))

lemma roots_marked_start: "roots_marked st \<Longrightarrow> start st S clr cc = Inr st' \<Longrightarrow> roots_marked st'"
  by (auto simp: start_def split: sum.splits option.splits
      dest!: roots_marked_getRenderTarget(2) [rotated] roots_marked_push [rotated])

lemma roots_marked_new: "roots_marked (new_GpuRenderTargetSystem rts txs srcs n getc thr proj)"
  by (simp add: roots_marked_def new_GpuRenderTargetSystem_def)

lemma roots_marked_contextChange: "roots_marked st \<Longrightarrow> roots_marked (contextChange st d)"
  by (simp add: contextChange_def)

text \<open>
  C10. \<^verbatim>\<open>initRenderTarget\<close> marks the target it returns as root for every kind of
  surface, \<^verbatim>\<open>initGpuRenderTarget\<close> marks it again, and in every state in which the
  targets held by the two hashes are marked (an invariant of every operation), the target
  returned by \<^verbatim>\<open>getRenderTarget\<close> and the target given to \<^verbatim>\<open>getGpuRenderTarget\<close>
  are marked afterwards.
\<close>

theorem isRoot_always_marked:
  "(initRenderTarget st S = Inr (u, st1) \<longrightarrow> is_root st1 u) \<and>
   (initGpuRenderTarget st v = Inr (g, st2) \<longrightarrow> is_root st2 v) \<and>
   (roots_marked st \<longrightarrow> getRenderTarget st S = Inr (u, st3) \<longrightarrow> is_root st3 u \<and> roots_marked st3) \<and>
   (roots_marked st \<longrightarrow> getGpuRenderTarget st v = Inr (g, st4) \<longrightarrow> is_root st4 v \<and> roots_marked st4)"
  using initRenderTarget_Inr [of st S u st1] initGpuRenderTarget_Inr [of st v g st2]
    roots_marked_getRenderTarget [of st S u st3] roots_marked_getGpuRenderTarget [of st v g st4]
  by blast

theorem isRoot_always_marked_witness:
  "\<exists>st1 g st2.
     initRenderTarget (example_system False) (TextureSurface 2) = Inr (3, st1) \<and> is_root st1 3 \<and>
     initGpuRenderTarget (example_system False) 0 = Inr (g, st2) \<and> is_root st2 0 \<and>
     roots_marked (example_system False) \<and>
     getRenderTarget (example_system False) (TextureSurface 2) = Inr (3, st1) \<and> roots_marked st1 \<and>
     getGpuRenderTarget (example_system False) 0 = Inr (g, st2) \<and> roots_marked st2"
proof -
  obtain st1 where a: "initRenderTarget (example_system False) (TextureSurface 2) = Inr (3, st1)"
    by (simp add: example_defs run_defs)
  obtain g st2 where b: "initGpuRenderTarget (example_system False) 0 = Inr (g, st2)"
    by (simp add: example_defs run_defs)
  have c: "roots_marked (example_system False)"
    by (simp add: example_defs roots_marked_def)
  have d: "getRenderTarget (example_system False) (TextureSurface 2) = Inr (3, st1)"
    using a by (simp add: getRenderTarget_def example_defs)
  have e: "getGpuRenderTarget (example_system False) 0 = Inr (g, st2)"
    using b by (simp add: getGpuRenderTarget_def example_defs)
  from isRoot_always_marked [of "example_system False" "TextureSurface 2" 3 st1 0 g st2 st1 st2] a b c d e
  show ?thesis by blast
qed

subsection \<open>When a bind succeeds\<close>

lemma texture_source_upds [simp]:
  "texture_source (st\<lparr>next_uid := n\<rparr>) = texture_source st"
  "texture_source (st\<lparr>renderSurfaceToRenderTargetHash := sh\<rparr>) = texture_source st"
  "texture_source (st\<lparr>renderTarget := x\<rparr>) = texture_source st"
  "texture_source (st\<lparr>gpuRenderTargetHash := h\<rparr>) = texture_source st"
  by (rule texture_source_cong; simp)+

lemma valid_target_cong:
  assumes "heap_renderTargets st' = heap_renderTargets st"
    and "heap_textures st' = heap_textures st"
    and "heap_sources st' = heap_sources st"
  shows "valid_target st' = valid_target st"
proof -
  have a: "texture_source st' = texture_source st"
    by (rule texture_source_cong) (use assms in simp_all)
  have b: "canvas_backed st' = canvas_backed st"
    by (simp add: canvas_backed_def fun_eq_iff a)
  have c: "can_getContext st' = can_getContext st"
    by (simp add: can_getContext_def fun_eq_iff a split: list.splits)
  have d: "target_shape st' = target_shape st"
    using assms by (simp add: target_shape_def fun_eq_iff)
  show ?thesis
    unfolding valid_target_def fun_eq_iff a b c d by simp
qed

lemma valid_target_upds [simp]:
  "valid_target (st\<lparr>renderTarget := x\<rparr>) = valid_target st"
  "valid_target (st\<lparr>gpuRenderTargetHash := h\<rparr>) = valid_target st"
  "valid_target (st\<lparr>events := es\<rparr>) = valid_target st"
  "valid_target (st\<lparr>renderTargetStack := s\<rparr>) = valid_target st"
  "valid_target (st\<lparr>rootRenderTarget := r\<rparr>) = valid_target st"
  "valid_target (st\<lparr>rootProjectionMatrix := m\<rparr>) = valid_target st"
  "valid_target (st\<lparr>renderSurfaceToRenderTargetHash := sh\<rparr>) = valid_target st"
  by (rule valid_target_cong; simp)+

lemma valid_target_isRoot:
  "heap_renderTargets st u = Some rt \<Longrightarrow>
   valid_target (st\<lparr>heap_renderTargets := (heap_renderTargets st)(u \<mapsto> rt\<lparr>isRoot := b\<rparr>)\<rparr>) v = valid_target st v"
proof -
  assume rt: "heap_renderTargets st u = Some rt"
  let ?st = "st\<lparr>heap_renderTargets := (heap_renderTargets st)(u \<mapsto> rt\<lparr>isRoot := b\<rparr>)\<rparr>"
  have k: "kept st ?st" by (simp add: kept_def)
  have t: "target_shape ?st v = target_shape st v" using rt by (simp add: target_shape_def)
  from kept_valid_target [OF k t] show ?thesis .
qed

lemma initRenderTarget_total:
  assumes "renderSurfaceToRenderTargetHash st S = None" and "valid_surface st S"
  shows "\<exists>u st1. initRenderTarget st S = Inr (u, st1) \<and> valid_target st1 u"
proof (cases S)
  case (RenderTargetSurface u)
  with assms have v: "valid_target st u" by (simp add: valid_surface_def)
  then obtain rt where rt: "heap_renderTargets st u = Some rt"
    by (auto simp: valid_target_def target_shape_def split: option.splits)
  from v rt RenderTargetSurface show ?thesis
    by (simp add: initRenderTarget_def valid_target_isRoot)
next
  case (TextureSurface t)
  with assms obtain s where s: "texture_source st t = Some s"
    and d: "\<And>d. depthStencil s = Some d \<Longrightarrow> texture_source st d \<noteq> None"
    by (auto simp: valid_surface_def split: option.splits)
  let ?u = "next_uid st"
  let ?rt = "\<lparr>colorTextures = [t], depthTexture = depthStencil s,
              rt_width = ts_width s, rt_height = ts_height s, isRoot = True,
              projectionMatrix = env_projection st (ts_width s) (ts_height s)\<rparr>"
  let ?st1 = "st\<lparr>heap_renderTargets := (heap_renderTargets st)(?u \<mapsto> ?rt), next_uid := Suc ?u,
                renderSurfaceToRenderTargetHash := (renderSurfaceToRenderTargetHash st)(S \<mapsto> ?u)\<rparr>"
  from s TextureSurface have i: "initRenderTarget st S = Inr (?u, ?st1)"
    by (simp add: initRenderTarget_def new_RenderTarget_def Let_def)
  have sh: "target_shape ?st1 ?u = Some ([t], depthStencil s, ts_width s, ts_height s)"
    by (simp add: target_shape_def)
  have cb: "canvas_backed ?st1 t \<longrightarrow> can_getContext ?st1 [t]"
    using s by (auto simp: canvas_backed_def can_getContext_def split: Resource.splits)
  have "valid_target ?st1 ?u"
    unfolding valid_target_def sh using s d cb by (auto split: option.splits)
  with i show ?thesis by blast
next
  case (CanvasSurface c)
  with assms show ?thesis by (simp add: valid_surface_def)
next
  case (BindableSurface b)
  with assms show ?thesis by (simp add: valid_surface_def)
qed

lemma getRenderTarget_total:
  "valid_surface st S \<Longrightarrow> \<exists>u st1. getRenderTarget st S = Inr (u, st1) \<and> valid_target st1 u"
  by (cases "renderSurfaceToRenderTargetHash st S")
    (auto simp: getRenderTarget_def initRenderTarget_total, simp add: valid_surface_def)

lemma resizeMsaaTextures_total:
  "\<forall>t\<in>set ts. texture_source st t \<noteq> None \<Longrightarrow> \<exists>g'. resizeMsaaTextures st i ts g = Inr g'"
  by (induction ts arbitrary: i g) (auto split: option.splits)

lemma valid_target_parts:
  "valid_target st u \<Longrightarrow>
   \<exists>rt. heap_renderTargets st u = Some rt \<and>
     (\<forall>t\<in>set (colorTextures rt). texture_source st t \<noteq> None) \<and>
     (\<forall>d. depthTexture rt = Some d \<longrightarrow> heap_textures st d \<noteq> None)"
  by (auto simp: valid_target_def target_shape_def list_all_iff texture_source_def split: option.splits)

lemma bind_total:
  assumes "valid_surface st S"
  shows "\<exists>u st'. bind st S clr cc = Inr (u, st')"
proof -
  from getRenderTarget_total [OF assms] obtain u st1 where
    a: "getRenderTarget st S = Inr (u, st1)" and v1: "valid_target st1 u" by blast
  let ?st1 = "st1\<lparr>renderTarget := Some u\<rparr>"
  from v1 have "valid_target ?st1 u" by simp
  from getGpuRenderTarget_total [OF this] obtain g st2 where
    b: "getGpuRenderTarget ?st1 u = Inr (g, st2)" by blast
  note rb = getGpuRenderTarget_Inr [OF b]
  from rb v1 have v2: "valid_target st2 u"
    using kept_valid_target [of ?st1 st2 u] by simp
  from valid_target_parts [OF v2] obtain rt where rt: "heap_renderTargets st2 u = Some rt"
    and src: "\<forall>t\<in>set (colorTextures rt). texture_source st2 t \<noteq> None"
    and dep: "\<forall>d. depthTexture rt = Some d \<longrightarrow> heap_textures st2 d \<noteq> None"
    by blast
  from rb have h2: "gpuRenderTargetHash st2 u = Some g" by simp
  then have c2: "getGpuRenderTarget st2 u = Inr (g, st2)" by (simp add: getGpuRenderTarget_def)
  obtain g1 where
    r: "(if Some (rt_width rt) \<noteq> gpu_width g \<or> Some (rt_height rt) \<noteq> gpu_height g
         then resizeGpuRenderTarget st2 u else Inr (g, st2)) =
        Inr (g1, st2\<lparr>gpuRenderTargetHash := (gpuRenderTargetHash st2)(u \<mapsto> g1)\<rparr>)"
  proof (cases "Some (rt_width rt) \<noteq> gpu_width g \<or> Some (rt_height rt) \<noteq> gpu_height g")
    case True
    let ?g = "g\<lparr>gpu_width := Some (rt_width rt), gpu_height := Some (rt_height rt)\<rparr>"
    from resizeMsaaTextures_total [OF src] obtain g' where
      "resizeMsaaTextures st2 0 (colorTextures rt) ?g = Inr g'" by blast
    with rt c2 have "\<exists>g1. resizeGpuRenderTarget st2 u =
        Inr (g1, st2\<lparr>gpuRenderTargetHash := (gpuRenderTargetHash st2)(u \<mapsto> g1)\<rparr>)"
      by (simp add: resizeGpuRenderTarget_def Let_def)
    with True that show ?thesis by auto
  next
    case False
    with h2 have "(if Some (rt_width rt) \<noteq> gpu_width g \<or> Some (rt_height rt) \<noteq> gpu_height g
         then resizeGpuRenderTarget st2 u else Inr (g, st2)) =
        Inr (g, st2\<lparr>gpuRenderTargetHash := (gpuRenderTargetHash st2)(u \<mapsto> g)\<rparr>)"
      by (simp add: fun_upd_idem)
    then show ?thesis by (rule that)
  qed
  let ?st3 = "st2\<lparr>gpuRenderTargetHash := (gpuRenderTargetHash st2)(u \<mapsto> g1)\<rparr>"
  have "\<exists>d. getDescriptor ?st3 u clr cc = Inr (d, ?st3)"
    using rt dep by (auto simp: getDescriptor_def getGpuRenderTarget_def Let_def split: option.splits)
  then obtain d where e: "getDescriptor ?st3 u clr cc = Inr (d, ?st3)" by blast
  show ?thesis
    unfolding bind_def
    by (simp only: a b rt r e sum.case prod.case option.case Let_def) blast
qed

lemmas bind_defs = bind_def push_def pop_def start_def resizeGpuRenderTarget_def getDescriptor_def
  colorAttachment_def resize_def DEFAULT_CLEAR_COLOR_def

lemmas valid_defs = valid_surface_def valid_target_def target_shape_def canvas_backed_def
  can_getContext_def texture_source_def

subsection \<open>Render targets used as surfaces\<close>

lemma surfaces_consistent_upds [simp]:
  "surfaces_consistent (st\<lparr>renderTarget := x\<rparr>) = surfaces_consistent st"
  "surfaces_consistent (st\<lparr>events := es\<rparr>) = surfaces_consistent st"
  "surfaces_consistent (st\<lparr>renderTargetStack := s\<rparr>) = surfaces_consistent st"
  "surfaces_consistent (st\<lparr>rootRenderTarget := r\<rparr>) = surfaces_consistent st"
  "surfaces_consistent (st\<lparr>rootProjectionMatrix := m\<rparr>) = surfaces_consistent st"
  "surfaces_consistent (st\<lparr>gpu := d\<rparr>) = surfaces_consistent st"
  "surfaces_consistent (st\<lparr>gpuRenderTargetHash := h\<rparr>) = surfaces_consistent st"
  by (simp_all add: surfaces_consistent_def)

lemma surfaces_consistent_getRenderTarget:
  assumes "surfaces_consistent st" and "getRenderTarget st S = Inr (u, st')"
  shows "surfaces_consistent st'" and "S = RenderTargetSurface v \<Longrightarrow> u = v"
proof -
  note r = getRenderTarget_Inr [OF assms(2)]
  have v: "u = w" if "S = RenderTargetSurface w" for w
  proof (cases "renderSurfaceToRenderTargetHash st S")
    case None
    with r that show ?thesis by simp
  next
    case (Some x)
    with assms(2) have "x = u" by (simp add: getRenderTarget_def)
    with Some that assms(1) show ?thesis by (simp add: surfaces_consistent_def)
  qed
  then show "S = RenderTargetSurface v \<Longrightarrow> u = v" .
  from assms(1) r v show "surfaces_consistent st'"
    by (auto simp: surfaces_consistent_def split: if_splits)
qed

lemma surfaces_consistent_bind:
  assumes "surfaces_consistent st" and "bind st S clr cc = Inr (u, st')"
  shows "surfaces_consistent st'" and "S = RenderTargetSurface v \<Longrightarrow> u = v"
proof -
  from bind_Inr(4) [OF assms(2)] obtain st1 where a: "getRenderTarget st S = Inr (u, st1)" by blast
  have v: "u = w" if "S = RenderTargetSurface w" for w
    using surfaces_consistent_getRenderTarget(2) [OF assms(1) a that] .
  then show "S = RenderTargetSurface v \<Longrightarrow> u = v" .
  from assms(1) bind_Inr(3) [OF assms(2)] v show "surfaces_consistent st'"
    by (auto simp: surfaces_consistent_def split: if_splits)
qed

lemma surfaces_consistent_push:
  "surfaces_consistent st \<Longrightarrow> push st S clr cc = Inr (u, st') \<Longrightarrow> surfaces_consistent st'"
  by (auto simp: push_def split: sum.splits dest: surfaces_consistent_bind(1))

lemma surfaces_consistent_pop: "surfaces_consistent st \<Longrightarrow> pop st = Inr st' \<Longrightarrow> surfaces_consistent st'"
  by (auto simp: pop_def Let_def split: sum.splits if_splits
      dest: surfaces_consistent_bind(1) [rotated])

lemma surfaces_consistent_restart:
  "surfaces_consistent st \<Longrightarrow> restart st = Inr st' \<Longrightarrow> surfaces_consistent st'"
  by (auto simp: restart_def split: sum.splits option.splits dest: surfaces_consistent_bind(1))

lemma surfaces_consistent_start:
  "surfaces_consistent st \<Longrightarrow> start st S clr cc = Inr st' \<Longrightarrow> surfaces_consistent st'"
  by (auto simp: start_def split: sum.splits option.splits
      dest!: surfaces_consistent_getRenderTarget(1) [rotated] surfaces_consistent_push [rotated])

lemma surfaces_consistent_new:
  "surfaces_consistent (new_GpuRenderTargetSystem rts txs srcs n getc thr proj)"
  by (simp add: surfaces_consistent_def new_GpuRenderTargetSystem_def)

lemma bind_descriptor:
  assumes "bind st S clr cc = Inr (u, st')"
  shows "\<exists>g d rt es.
           gpuRenderTargetHash st' u = Some g \<and> descriptor g = Some d \<and>
           heap_renderTargets st' u = Some rt \<and>
           colorAttachments d =
             map (colorAttachment g u (if clr then Clear else Load) cc) (enumerate 0 (colorTextures rt)) \<and>
           events st' =
             es @ [BeginRenderPass u g, SetMultisampleCount (msaaSamples g), OnRenderTargetChange u]"
proof -
  from assms obtain st2 rt g1 d where
    c: "heap_renderTargets st2 u = Some rt" and
    d: "colorAttachments d =
       map (colorAttachment g1 u (if clr then Clear else Load) cc) (enumerate 0 (colorTextures rt))" and
    f: "st' = st2\<lparr>gpuRenderTargetHash := (gpuRenderTargetHash st2)(u \<mapsto> g1\<lparr>descriptor := Some d\<rparr>),
              events := events st2 @
                [BeginRenderPass u (g1\<lparr>descriptor := Some d\<rparr>),
                 SetMultisampleCount (msaaSamples g1),
                 OnRenderTargetChange u]\<rparr>"
    by (rule bind_Inr_full)
  let ?g = "g1\<lparr>descriptor := Some d\<rparr>"
  have "gpuRenderTargetHash st' u = Some ?g" "descriptor ?g = Some d" "heap_renderTargets st' u = Some rt"
    "colorAttachments d =
       map (colorAttachment ?g u (if clr then Clear else Load) cc) (enumerate 0 (colorTextures rt))"
    "events st' = events st2 @ [BeginRenderPass u ?g, SetMultisampleCount (msaaSamples ?g), OnRenderTargetChange u]"
    using c d f by simp_all
  then show ?thesis by blast
qed

subsection \<open>The pass descriptor of a bind\<close>

text \<open>
  C5. Every bind of a surface whose target has its textures and sources succeeds, and
  after every bind that returns, the backend target of the bound render target holds a
  pass descriptor, the one passed to \<^verbatim>\<open>beginRenderPass\<close>, with one color attachment per
  color texture, each with load operation \<open>Clear\<close> when \<^verbatim>\<open>clear\<close> is true and \<open>Load\<close>
  when it is false, store operation \<open>Store\<close>, and the supplied clear color, or
  \<open>(0, 0, 0, 0)\<close> when none is supplied.
\<close>

theorem bind_descriptor_ops:
  "(valid_surface st S \<longrightarrow> (\<exists>u st'. bind st S clr cc = Inr (u, st'))) \<and>
   (bind st S clr cc = Inr (u, st') \<longrightarrow>
      (\<exists>g d rt es.
         gpuRenderTargetHash st' u = Some g \<and> descriptor g = Some d \<and>
         heap_renderTargets st' u = Some rt \<and>
         length (colorAttachments d) = length (colorTextures rt) \<and>
         (\<forall>a\<in>set (colorAttachments d).
            loadOp a = (if clr then Clear else Load) \<and> storeOp a = Store \<and>
            clearValue a = (case cc of None \<Rightarrow> (0, 0, 0, 0) | Some c \<Rightarrow> c)) \<and>
         events st' =
           es @ [BeginRenderPass u g, SetMultisampleCount (msaaSamples g), OnRenderTargetChange u]))"
proof (intro conjI impI)
  assume "valid_surface st S"
  then show "\<exists>u st'. bind st S clr cc = Inr (u, st')" by (rule bind_total)
next
  assume "bind st S clr cc = Inr (u, st')"
  from bind_descriptor [OF this] obtain g d rt es where
    a: "gpuRenderTargetHash st' u = Some g" "descriptor g = Some d" "heap_renderTargets st' u = Some rt" and
    d: "colorAttachments d =
             map (colorAttachment g u (if clr then Clear else Load) cc) (enumerate 0 (colorTextures rt))" and
    e: "events st' =
             es @ [BeginRenderPass u g, SetMultisampleCount (msaaSamples g), OnRenderTargetChange u]"
    by blast
  from d have "length (colorAttachments d) = length (colorTextures rt)" by simp
  moreover from d have "\<forall>a\<in>set (colorAttachments d).
            loadOp a = (if clr then Clear else Load) \<and> storeOp a = Store \<and>
            clearValue a = (case cc of None \<Rightarrow> (0, 0, 0, 0) | Some c \<Rightarrow> c)"
    by (auto simp: DEFAULT_CLEAR_COLOR_def split: option.splits)
  ultimately show "\<exists>g d rt es.
         gpuRenderTargetHash st' u = Some g \<and> descriptor g = Some d \<and>
         heap_renderTargets st' u = Some rt \<and>
         length (colorAttachments d) = length (colorTextures rt) \<and>
         (\<forall>a\<in>set (colorAttachments d).
            loadOp a = (if clr then Clear else Load) \<and> storeOp a = Store \<and>
            clearValue a = (case cc of None \<Rightarrow> (0, 0, 0, 0) | Some c \<Rightarrow> c)) \<and>
         events st' =
           es @ [BeginRenderPass u g, SetMultisampleCount (msaaSamples g), OnRenderTargetChange u]"
    using a e by blast
qed

theorem bind_descriptor_ops_witness:
  "valid_surface (example_system False) (TextureSurface 2) \<and>
   (\<exists>u st' g d.
      bind (example_system False) (TextureSurface 2) True None = Inr (u, st') \<and>
      gpuRenderTargetHash st' u = Some g \<and> descriptor g = Some d \<and>
      map loadOp (colorAttachments d) = [Clear] \<and>
      map storeOp (colorAttachments d) = [Store] \<and>
      map clearValue (colorAttachments d) = [(0, 0, 0, 0)])"
proof -
  have v: "valid_surface (example_system False) (TextureSurface 2)"
    by (simp add: example_defs valid_defs)
  have t: "bind (example_system False) (TextureSurface 2) True None = Inr (u, st') \<Longrightarrow>
      (\<exists>g d rt es.
         gpuRenderTargetHash st' u = Some g \<and> descriptor g = Some d \<and>
         heap_renderTargets st' u = Some rt \<and>
         length (colorAttachments d) = length (colorTextures rt) \<and>
         (\<forall>a\<in>set (colorAttachments d).
            loadOp a = (if True then Clear else Load) \<and> storeOp a = Store \<and>
            clearValue a = (case None of None \<Rightarrow> (0, 0, 0, 0) | Some c \<Rightarrow> c)) \<and>
         events st' =
           es @ [BeginRenderPass u g, SetMultisampleCount (msaaSamples g), OnRenderTargetChange u])"
    for u st'
    using bind_descriptor_ops [of "example_system False" "TextureSurface 2" True None u st'] by blast
  from v bind_descriptor_ops [of "example_system False" "TextureSurface 2" True None]
  obtain u st' where b: "bind (example_system False) (TextureSurface 2) True None = Inr (u, st')"
    by blast
  have c: "\<exists>rt. heap_renderTargets st' u = Some rt \<and> length (colorTextures rt) = 1"
    using b by (auto simp: example_defs run_defs bind_defs)
  from t [OF b] c obtain g d where
    "gpuRenderTargetHash st' u = Some g" "descriptor g = Some d"
    "length (colorAttachments d) = 1"
    "\<forall>a\<in>set (colorAttachments d). loadOp a = Clear \<and> storeOp a = Store \<and> clearValue a = (0, 0, 0, 0)"
    by auto
  with v b show ?thesis by (auto simp: length_Suc_conv)
qed

lemma pop_unfold:
  assumes "2 \<le> length (renderTargetStack st)"
  shows "pop st =
     (case bind (st\<lparr>renderTargetStack := butlast (renderTargetStack st)\<rparr>)
             (RenderTargetSurface (last (butlast (renderTargetStack st)))) False None of
        Inl e \<Rightarrow> Inl e
      | Inr (u, st2) \<Rightarrow> Inr st2)"
proof -
  from assms have "butlast (renderTargetStack st) \<noteq> []"
    by (cases "renderTargetStack st" rule: rev_cases) auto
  then show ?thesis by (simp add: pop_def Let_def)
qed

subsection \<open>Popping the stack\<close>

text \<open>
  C2. For every stack holding at least two targets (in a state whose surface hash maps
  render targets to themselves, as every operation keeps it), \<^verbatim>\<open>pop()\<close> succeeds when the
  target below the top has its textures and sources, and whenever it returns it has removed
  the top element and rebound the new top: the new top is the current render target, and the
  pass descriptor of its backend target, the one passed to \<^verbatim>\<open>beginRenderPass\<close>, has one
  color attachment per color texture, each with load operation \<open>Load\<close>.
\<close>

theorem pop_rebinds_with_load:
  assumes "2 \<le> length (renderTargetStack st)" and "surfaces_consistent st"
  shows "(valid_target st (last (butlast (renderTargetStack st))) \<longrightarrow> (\<exists>st'. pop st = Inr st')) \<and>
         (pop st = Inr st' \<longrightarrow>
            renderTargetStack st' = butlast (renderTargetStack st) \<and>
            renderTarget st' = Some (last (butlast (renderTargetStack st))) \<and>
            (\<exists>g d rt es.
               gpuRenderTargetHash st' (last (butlast (renderTargetStack st))) = Some g \<and>
               descriptor g = Some d \<and>
               heap_renderTargets st' (last (butlast (renderTargetStack st))) = Some rt \<and>
               length (colorAttachments d) = length (colorTextures rt) \<and>
               (\<forall>a\<in>set (colorAttachments d). loadOp a = Load) \<and>
               events st' =
                 es @ [BeginRenderPass (last (butlast (renderTargetStack st))) g,
                       SetMultisampleCount (msaaSamples g),
                       OnRenderTargetChange (last (butlast (renderTargetStack st)))]))"
proof (intro conjI impI)
  let ?top = "last (butlast (renderTargetStack st))"
  let ?st1 = "st\<lparr>renderTargetStack := butlast (renderTargetStack st)\<rparr>"
  note p = pop_unfold [OF assms(1)]
  {
    assume v: "valid_target st ?top"
    have "valid_surface ?st1 (RenderTargetSurface ?top)"
    proof (cases "renderSurfaceToRenderTargetHash st (RenderTargetSurface ?top)")
      case None
      with v show ?thesis by (simp add: valid_surface_def)
    next
      case (Some w)
      with assms(2) have "w = ?top" by (simp add: surfaces_consistent_def)
      with Some v show ?thesis by (simp add: valid_surface_def)
    qed
    from bind_total [OF this, of False None] p show "\<exists>st'. pop st = Inr st'" by auto
  }
  assume "pop st = Inr st'"
  with p obtain u where b: "bind ?st1 (RenderTargetSurface ?top) False None = Inr (u, st')"
    by (auto split: sum.splits)
  from assms(2) have "surfaces_consistent ?st1" by simp
  from surfaces_consistent_bind(2) [OF this b] have u: "u = ?top" by simp
  from bind_Inr(1) [OF b] show "renderTargetStack st' = butlast (renderTargetStack st)"
    by (simp add: kept_def)
  from bind_Inr(2) [OF b] u show "renderTarget st' = Some ?top" by simp
  from bind_descriptor [OF b] obtain g d rt es where
    a: "gpuRenderTargetHash st' u = Some g" "descriptor g = Some d" "heap_renderTargets st' u = Some rt" and
    d: "colorAttachments d =
             map (colorAttachment g u (if False then Clear else Load) None) (enumerate 0 (colorTextures rt))" and
    e: "events st' =
             es @ [BeginRenderPass u g, SetMultisampleCount (msaaSamples g), OnRenderTargetChange u]"
    by blast
  from d have "length (colorAttachments d) = length (colorTextures rt)"
    "\<forall>a\<in>set (colorAttachments d). loadOp a = Load" by auto
  with a e u show "\<exists>g d rt es.
               gpuRenderTargetHash st' ?top = Some g \<and>
               descriptor g = Some d \<and>
               heap_renderTargets st' ?top = Some rt \<and>
               length (colorAttachments d) = length (colorTextures rt) \<and>
               (\<forall>a\<in>set (colorAttachments d). loadOp a = Load) \<and>
               events st' =
                 es @ [BeginRenderPass ?top g,
                       SetMultisampleCount (msaaSamples g),
                       OnRenderTargetChange ?top]"
    by blast
qed

theorem pop_rebinds_with_load_witness:
  "\<exists>st1 st2 st3 g d.
     start (example_system False) (RenderTargetSurface 0) True (Some (1, 0, 0, 1)) = Inr st1 \<and>
     push st1 (TextureSurface 2) True None = Inr (3, st2) \<and>
     renderTargetStack st2 = [0, 3] \<and> surfaces_consistent st2 \<and> valid_target st2 0 \<and>
     pop st2 = Inr st3 \<and> renderTargetStack st3 = [0] \<and> renderTarget st3 = Some 0 \<and>
     gpuRenderTargetHash st3 0 = Some g \<and> descriptor g = Some d \<and>
     list_all (\<lambda>a. loadOp a = Load) (colorAttachments d)"
proof -
  obtain st1 st2 where
    a: "start (example_system False) (RenderTargetSurface 0) True (Some (1, 0, 0, 1)) = Inr st1" and
    b: "push st1 (TextureSurface 2) True None = Inr (3, st2)" and
    s: "renderTargetStack st2 = [0, 3]" and
    c: "surfaces_consistent st2" and
    v: "valid_target st2 0"
    by (simp add: example_defs run_defs bind_defs valid_defs surfaces_consistent_def)
  from s have l: "2 \<le> length (renderTargetStack st2)" by simp
  from s have top: "last (butlast (renderTargetStack st2)) = 0" by simp
  from pop_rebinds_with_load [OF l c] v top obtain st3 where p: "pop st2 = Inr st3" by auto
  from pop_rebinds_with_load [OF l c, of st3] p top s obtain g d where
    "renderTargetStack st3 = [0]" "renderTarget st3 = Some 0"
    "gpuRenderTargetHash st3 0 = Some g" "descriptor g = Some d"
    "\<forall>a\<in>set (colorAttachments d). loadOp a = Load"
    by auto
  with a b s c v p show ?thesis by (auto simp: list_all_iff)
qed

subsection \<open>Starting a frame\<close>

text \<open>
  C6. For every prior state, \<^verbatim>\<open>start(S, clear, clearColor)\<close> succeeds when the target of
  \<open>S\<close> has its textures and sources, and whenever it returns, the stack holds exactly one
  element, the root render target resolved from \<open>S\<close>, which is also the current render
  target: nothing of the stack of the prior state survives.
\<close>

theorem start_resets_stack:
  "(valid_surface st S \<longrightarrow> (\<exists>st'. start st S clr cc = Inr st')) \<and>
   (start st S clr cc = Inr st' \<longrightarrow>
      (\<exists>u st1. getRenderTarget st S = Inr (u, st1) \<and>
         renderTargetStack st' = [u] \<and> rootRenderTarget st' = Some u \<and> renderTarget st' = Some u))"
proof (intro conjI impI)
  assume "valid_surface st S"
  from getRenderTarget_total [OF this] obtain u st1 where
    a: "getRenderTarget st S = Inr (u, st1)" and v: "valid_target st1 u" by blast
  from valid_target_parts [OF v] obtain rt where rt: "heap_renderTargets st1 u = Some rt" by blast
  let ?st1 = "st1\<lparr>rootRenderTarget := Some u, rootProjectionMatrix := projectionMatrix rt,
                  renderTargetStack := [], events := events st1 @ [EncoderStart]\<rparr>"
  from getRenderTarget_Inr [OF a] have "renderSurfaceToRenderTargetHash ?st1 S = Some u" by simp
  with v have "valid_surface ?st1 S" by (simp add: valid_surface_def)
  from bind_total [OF this, of clr cc] obtain r st2 where "bind ?st1 S clr cc = Inr (r, st2)" by blast
  with a rt show "\<exists>st'. start st S clr cc = Inr st'"
    by (simp add: start_def push_def)
next
  assume s: "start st S clr cc = Inr st'"
  then obtain u st1 rt r st2 where
    a: "getRenderTarget st S = Inr (u, st1)" and
    rt: "heap_renderTargets st1 u = Some rt" and
    b: "bind (st1\<lparr>rootRenderTarget := Some u, rootProjectionMatrix := projectionMatrix rt,
                  renderTargetStack := [], events := events st1 @ [EncoderStart]\<rparr>) S clr cc = Inr (r, st2)" and
    f: "st' = st2\<lparr>renderTargetStack := renderTargetStack st2 @ [r]\<rparr>"
    by (auto simp: start_def push_def split: sum.splits option.splits)
  let ?st1 = "st1\<lparr>rootRenderTarget := Some u, rootProjectionMatrix := projectionMatrix rt,
                  renderTargetStack := [], events := events st1 @ [EncoderStart]\<rparr>"
  from getRenderTarget_Inr [OF a] have h: "renderSurfaceToRenderTargetHash ?st1 S = Some u" by simp
  from bind_Inr(4) [OF b] obtain st3 where "getRenderTarget ?st1 S = Inr (r, st3)" by blast
  with h have r: "r = u" by (simp add: getRenderTarget_def)
  from bind_Inr(1) [OF b] have "renderTargetStack st2 = []" "rootRenderTarget st2 = Some u"
    by (simp_all add: kept_def)
  with f r bind_Inr(2) [OF b] a
  show "\<exists>u st1. getRenderTarget st S = Inr (u, st1) \<and>
         renderTargetStack st' = [u] \<and> rootRenderTarget st' = Some u \<and> renderTarget st' = Some u"
    by simp
qed

theorem start_resets_stack_witness:
  "valid_surface ((example_system False)\<lparr>renderTargetStack := [5, 6]\<rparr>) (RenderTargetSurface 0) \<and>
   (\<exists>st'. start ((example_system False)\<lparr>renderTargetStack := [5, 6]\<rparr>) (RenderTargetSurface 0) True
            (Some (1, 0, 0, 1)) = Inr st' \<and>
      renderTargetStack st' = [0] \<and> rootRenderTarget st' = Some 0 \<and> renderTarget st' = Some 0)"
proof -
  let ?st = "(example_system False)\<lparr>renderTargetStack := [5, 6]\<rparr>"
  have v: "valid_surface ?st (RenderTargetSurface 0)"
    by (simp add: example_defs valid_defs)
  from v start_resets_stack [of ?st "RenderTargetSurface 0" True "Some (1, 0, 0, 1)"]
  obtain st' where a: "start ?st (RenderTargetSurface 0) True (Some (1, 0, 0, 1)) = Inr st'" by blast
  have g: "\<exists>st1. getRenderTarget ?st (RenderTargetSurface 0) = Inr (0, st1)"
    by (simp add: example_defs run_defs)
  from a g start_resets_stack [of ?st "RenderTargetSurface 0" True "Some (1, 0, 0, 1)" st']
  have "renderTargetStack st' = [0] \<and> rootRenderTarget st' = Some 0 \<and> renderTarget st' = Some 0"
    by auto
  with v a show ?thesis by blast
qed

subsection \<open>Resizing at bind time\<close>

text \<open>
  C7. Let \<open>u\<close> be the render target that bind resolves from the surface, \<open>g\<close> the backend
  target that bind looks up (or creates) for it, and \<open>rt\<close> the render target at that time.
  If the width or height of \<open>rt\<close> differs from the width or height cached in \<open>g\<close>, then
  after the bind the backend target caches the dimensions of \<open>rt\<close>, and when \<open>g\<close> is
  multisampled each of its multisample textures has been resized (the \<^verbatim>\<open>resize\<close> of
  \<^verbatim>\<open>TextureSource\<close>) to the width, height and resolution of the source of its color
  attachment. The pass descriptor is built from the resized backend target, which is the
  one passed to \<^verbatim>\<open>beginRenderPass\<close>.
\<close>

theorem bind_resizes_backend:
  assumes "getRenderTarget st S = Inr (u, st1)"
    and "getGpuRenderTarget (st1\<lparr>renderTarget := Some u\<rparr>) u = Inr (g, st2)"
    and "heap_renderTargets st2 u = Some rt"
    and "Some (rt_width rt) \<noteq> gpu_width g \<or> Some (rt_height rt) \<noteq> gpu_height g"
    and "bind st S clr cc = Inr (u', st')"
  shows "u' = u \<and>
         (\<exists>g' d es.
            gpuRenderTargetHash st' u = Some g' \<and>
            gpu_width g' = Some (rt_width rt) \<and> gpu_height g' = Some (rt_height rt) \<and>
            (msaa g \<longrightarrow>
               (\<forall>j m. j < length (colorTextures rt) \<longrightarrow> msaaTextures g j = Some m \<longrightarrow>
                  (\<exists>s. texture_source st2 (colorTextures rt ! j) = Some s \<and>
                     msaaTextures g' j = Some (resize m (ts_width s) (ts_height s) (resolution s))))) \<and>
            (\<not> msaa g \<longrightarrow> msaaTextures g' = msaaTextures g) \<and>
            descriptor g' = Some d \<and>
            colorAttachments d =
              map (colorAttachment g' u (if clr then Clear else Load) cc) (enumerate 0 (colorTextures rt)) \<and>
            events st' =
              es @ [BeginRenderPass u g', SetMultisampleCount (msaaSamples g'), OnRenderTargetChange u])"
proof -
  from assms(5) obtain st1' g0 st2' rt' g1 d where
    a: "getRenderTarget st S = Inr (u', st1')" and
    b: "getGpuRenderTarget (st1'\<lparr>renderTarget := Some u'\<rparr>) u' = Inr (g0, st2')" and
    c: "heap_renderTargets st2' u' = Some rt'" and
    r: "if Some (rt_width rt') \<noteq> gpu_width g0 \<or> Some (rt_height rt') \<noteq> gpu_height g0
     then resizeGpuRenderTarget st2' u' =
            Inr (g1, st2'\<lparr>gpuRenderTargetHash := (gpuRenderTargetHash st2')(u' \<mapsto> g1)\<rparr>)
     else g1 = g0" and
    d: "colorAttachments d =
       map (colorAttachment g1 u' (if clr then Clear else Load) cc) (enumerate 0 (colorTextures rt'))" and
    f: "st' = st2'\<lparr>gpuRenderTargetHash := (gpuRenderTargetHash st2')(u' \<mapsto> g1\<lparr>descriptor := Some d\<rparr>),
              events := events st2' @
                [BeginRenderPass u' (g1\<lparr>descriptor := Some d\<rparr>),
                 SetMultisampleCount (msaaSamples g1),
                 OnRenderTargetChange u']\<rparr>"
    by (rule bind_Inr_full)
  from a assms(1) have e1: "u' = u" "st1' = st1" by simp_all
  with b assms(2) have e2: "g0 = g" "st2' = st2" by simp_all
  with c assms(3) e1 have e3: "rt' = rt" by simp
  from r assms(4) e1 e2 e3 have rs: "resizeGpuRenderTarget st2 u =
            Inr (g1, st2\<lparr>gpuRenderTargetHash := (gpuRenderTargetHash st2)(u \<mapsto> g1)\<rparr>)" by simp
  from getGpuRenderTarget_Inr [OF assms(2)] have h2: "gpuRenderTargetHash st2 u = Some g" by simp
  note z = resizeGpuRenderTarget_cached [OF rs h2 assms(3)]
  let ?g = "g1\<lparr>descriptor := Some d\<rparr>"
  have m: "\<exists>s. texture_source st2 (colorTextures rt ! j) = Some s \<and>
             msaaTextures ?g j = Some (resize m (ts_width s) (ts_height s) (resolution s))"
    if "msaa g" "j < length (colorTextures rt)" "msaaTextures g j = Some m" for j m
  proof -
    from z(5) that obtain s where s: "texture_source st2 (colorTextures rt ! j) = Some s" by auto
    with z(4) that show ?thesis by (simp add: resizeTo_def)
  qed
  have "gpuRenderTargetHash st' u = Some ?g" using f e1 e2 by simp
  moreover have "gpu_width ?g = Some (rt_width rt)" "gpu_height ?g = Some (rt_height rt)"
    using z(2,3) by simp_all
  moreover have "\<not> msaa g \<longrightarrow> msaaTextures ?g = msaaTextures g" using z(4) by simp
  moreover have "descriptor ?g = Some d" by simp
  moreover have "colorAttachments d =
      map (colorAttachment ?g u (if clr then Clear else Load) cc) (enumerate 0 (colorTextures rt))"
    using d e1 e3 by simp
  moreover have "events st' =
      events st2 @ [BeginRenderPass u ?g, SetMultisampleCount (msaaSamples ?g), OnRenderTargetChange u]"
    using f e1 e2 by simp
  ultimately show ?thesis using e1 m by blast
qed

theorem bind_resizes_backend_witness:
  "\<exists>st' g'.
     bind resized_example (RenderTargetSurface 2) False None = Inr (2, st') \<and>
     gpuRenderTargetHash st' 2 = Some g' \<and>
     gpu_width g' = Some 256 \<and> gpu_height g' = Some 128 \<and>
     msaaTextures g' 0 = Some (resize (new_TextureSource 0 0 4) 256 128 2)"
proof -
  let ?g = "\<lparr>contexts = Map.empty,
             msaaTextures = [0 \<mapsto> resize (new_TextureSource 0 0 4) 100 50 1],
             msaa = True, msaaSamples = 4, gpu_width = Some 100, gpu_height = Some 50,
             descriptor = None\<rparr>"
  let ?rt = "\<lparr>colorTextures = [1], depthTexture = Some 3, rt_width = 256, rt_height = 128,
              isRoot = False, projectionMatrix = new_Matrix\<rparr>"
  let ?st2 = "resized_example\<lparr>renderTarget := Some 2\<rparr>"
  have a: "getRenderTarget resized_example (RenderTargetSurface 2) = Inr (2, resized_example)"
    by (simp add: resized_example_def getRenderTarget_def)
  have b: "getGpuRenderTarget ?st2 2 = Inr (?g, ?st2)"
    by (simp add: resized_example_def getGpuRenderTarget_def)
  have c: "heap_renderTargets ?st2 2 = Some ?rt"
    by (simp add: resized_example_def example_defs)
  have d: "Some (rt_width ?rt) \<noteq> gpu_width ?g \<or> Some (rt_height ?rt) \<noteq> gpu_height ?g"
    by simp
  obtain u st' where e: "bind resized_example (RenderTargetSurface 2) False None = Inr (u, st')"
    by (simp add: resized_example_def example_defs run_defs bind_defs)
  have s: "texture_source ?st2 1 =
      Some \<lparr>resource = NoCanvas, antialias = True, ts_width = 256, ts_height = 128,
            resolution = 2, sampleCount = 1, depthStencil = None\<rparr>"
    by (simp add: resized_example_def example_defs texture_source_def)
  from bind_resizes_backend [OF a b c d e] obtain g' where
    u: "u = 2" and h: "gpuRenderTargetHash st' 2 = Some g'" and
    w: "gpu_width g' = Some 256" "gpu_height g' = Some 128" and
    m: "\<forall>j m. j < length (colorTextures ?rt) \<longrightarrow> msaaTextures ?g j = Some m \<longrightarrow>
           (\<exists>s. texture_source ?st2 (colorTextures ?rt ! j) = Some s \<and>
              msaaTextures g' j = Some (resize m (ts_width s) (ts_height s) (resolution s)))"
    by auto
  from m [rule_format, of 0 "resize (new_TextureSource 0 0 4) 100 50 1"] s
  have "msaaTextures g' 0 = Some (resize (new_TextureSource 0 0 4) 256 128 2)"
    by (simp add: resize_def)
  with e u h w show ?thesis by blast
qed

subsection \<open>Invariants of the reachable states\<close>

lemma roots_marked_getDescriptor:
  "roots_marked st \<Longrightarrow> getDescriptor st u clr cv = Inr (d, st') \<Longrightarrow> roots_marked st'"
  by (auto dest!: getDescriptor_Inr dest: roots_marked_getGpuRenderTarget(2))

lemma surfaces_consistent_getDescriptor:
  "surfaces_consistent st \<Longrightarrow> getDescriptor st u clr cv = Inr (d, st') \<Longrightarrow> surfaces_consistent st'"
  by (auto dest!: getDescriptor_Inr getGpuRenderTarget_Inr simp: surfaces_consistent_def)

lemma reachable_invariants:
  "reachable st \<Longrightarrow> roots_marked st \<and> surfaces_consistent st"
proof (induction rule: reachable.induct)
  case (constructed rts txs srcs n getc thr proj)
  show ?case by (simp add: roots_marked_new surfaces_consistent_new)
next
  case (after_contextChange st device)
  then show ?case by (simp add: contextChange_def)
next
  case (after_start st S clr cc st')
  then show ?case by (blast intro: roots_marked_start surfaces_consistent_start)
next
  case (after_bind st S clr cc u st')
  then show ?case by (blast intro: roots_marked_bind(2) surfaces_consistent_bind(1))
next
  case (after_push st S clr cc u st')
  then show ?case using roots_marked_push by (blast intro: surfaces_consistent_push)
next
  case (after_pop st st')
  then show ?case by (blast intro: roots_marked_pop surfaces_consistent_pop)
next
  case (after_restart st st')
  then show ?case by (blast intro: roots_marked_restart surfaces_consistent_restart)
next
  case (after_getRenderTarget st S u st')
  then show ?case
    by (blast intro: roots_marked_getRenderTarget(2) surfaces_consistent_getRenderTarget(1))
next
  case (after_getDescriptor st u clr cv d st')
  then show ?case by (blast intro: roots_marked_getDescriptor surfaces_consistent_getDescriptor)
qed

end
